theory Spec2Isabelle
  imports Complex_Main "HOL-Library.Word" "HOL-Library.Log_Nat"
begin

section \<open>Data model\<close>

text \<open>
  The instruction decoding engine of the Raydium launchpad transaction parser: the
  parser in the version that routes the launchpad program to its own resolver
  (\<^verbatim>\<open>parseRaydiumLaunchpadInstructionStandard\<close>), with the records of \<^verbatim>\<open>types.go\<close> and
  the helpers of \<^verbatim>\<open>utils.go\<close>. The envelope of a transaction is decoded by the Solana
  library; the engine starts from the decoded message and its compiled instructions.

  A \<^verbatim>\<open>solana.PublicKey\<close> is a 32-byte array; it is represented here by its base58 text,
  which is how the source writes every key constant (\<^verbatim>\<open>MustPublicKeyFromBase58\<close>) and how
  it keys its token table (\<^verbatim>\<open>tokenMint.String()\<close>). Base58 is injective, so equality of
  keys is equality of texts. The zero key \<^verbatim>\<open>solana.PublicKey{}\<close> is thirty-two zero bytes,
  whose text is thirty-two characters \<^verbatim>\<open>1\<close>: the system program id.

  A \<^verbatim>\<open>float64\<close> is represented by the rational number it denotes; conversion and
  division round to the nearest value with a 53-bit significand, ties to even.

  Calls of \<^verbatim>\<open>log.Printf\<close> are left out: they change no value that is returned.
\<close>

type_synonym PublicKey = string
type_synonym byte = "8 word"
type_synonym uint64 = "64 word"
type_synonym float64 = rat

record CreateInfo =
  TokenMint :: PublicKey
  TokenDecimals :: byte
  TokenSymbol :: string
  PoolAddress :: PublicKey
  Creator :: PublicKey
  Amount :: uint64
  Timestamp :: "64 word"

record TradeInfo =
  InstructionIndex :: int
  TokenIn :: PublicKey
  TokenOut :: PublicKey
  AmountIn :: uint64
  AmountOut :: uint64
  Trader :: PublicKey
  Pool :: PublicKey
  TradeType :: string

record Migration =
  FromPool :: PublicKey
  ToPool :: PublicKey
  Token :: PublicKey
  Amount :: uint64
  Owner :: PublicKey
  Timestamp :: "64 word"

record SwapBuy =
  TokenIn :: PublicKey
  TokenOut :: PublicKey
  AmountIn :: uint64
  AmountOut :: uint64
  MinAmountOut :: uint64
  Pool :: PublicKey
  Buyer :: PublicKey
  Slippage :: float64

record SwapSell =
  TokenIn :: PublicKey
  TokenOut :: PublicKey
  AmountIn :: uint64
  AmountOut :: uint64
  MinAmountOut :: uint64
  Pool :: PublicKey
  Seller :: PublicKey
  Slippage :: float64

record Transaction =
  Signature :: string
  Slot :: uint64
  Create :: "CreateInfo list"
  Trade :: "TradeInfo list"
  TradeBuys :: "int list"
  TradeSells :: "int list"
  Migrate :: "Migration list"
  SwapBuys :: "SwapBuy list"
  SwapSells :: "SwapSell list"

record TokenInfo =
  Mint :: PublicKey
  Symbol :: string
  Name :: string
  Decimals :: byte

text \<open>
  The two fields of \<^verbatim>\<open>solana.CompiledInstruction\<close> and the one field of
  \<^verbatim>\<open>solana.Message\<close> that the engine reads. Account indices are \<^verbatim>\<open>uint16\<close>.
\<close>

record CompiledInstruction =
  ProgramIDIndex :: "16 word"
  Accounts :: "16 word list"
  Data :: "byte list"

record Message =
  AccountKeys :: "PublicKey list"

record GeyserInstruction =
  ProgramID :: PublicKey
  Accounts :: "PublicKey list"
  Data :: "byte list"

record GeyserInnerInstruction =
  Index :: int
  Instructions :: "GeyserInstruction list"

record TransactionMeta =
  PreBalances :: "uint64 list"
  PostBalances :: "uint64 list"

record GeyserTransaction =
  Signature :: string
  Slot :: uint64
  Instructions :: "GeyserInstruction list"
  InnerInstructions :: "GeyserInnerInstruction list"
  Meta :: "TransactionMeta option"

text \<open>
  A Go \<^verbatim>\<open>error\<close> built by \<^verbatim>\<open>fmt.Errorf\<close>: its message, or the one formatted message
  with the offending index.
\<close>

datatype error = Errorf string | InvalidProgramIDIndex "16 word"

text \<open>
  A Go call either returns or panics (an index out of range); nothing in the engine
  recovers, so a panic ends the process. A decoder takes the \<^verbatim>\<open>*Transaction\<close> it
  mutates and returns the error together with the transaction as it has left it.
\<close>

datatype 'a go = Panic | Ret 'a

type_synonym parsed = "(error option \<times> Transaction) go"

definition ok :: "Transaction \<Rightarrow> parsed" where
  "ok result = Ret (None, result)"

definition fail :: "string \<Rightarrow> Transaction \<Rightarrow> parsed" where
  "fail msg result = Ret (Some (Errorf msg), result)"

section \<open>Constants\<close>

definition RaydiumV4ProgramID :: PublicKey where
  "RaydiumV4ProgramID = ''675kPX9MHTjS2zt1qfr1NYHuzeLXfQM9H24wFSUt1Mp8''"

definition RaydiumV5ProgramID :: PublicKey where
  "RaydiumV5ProgramID = ''5quBtoiQqxF9Jv6KYKctB59NT3gtJD2Y65kdnB1Uev3h''"

definition RaydiumStakingProgramID :: PublicKey where
  "RaydiumStakingProgramID = ''EhhTKczWMGQt46ynNeRX1WfeagwwJd7ufHvCDjRxjo5Q''"

definition RaydiumLiquidityProgramID :: PublicKey where
  "RaydiumLiquidityProgramID = ''27haf8L6oxUeXrHrgEgsexjSY5hbVUWEmvv9Nyxg8vQv''"

definition RaydiumLaunchpadV1ProgramID :: PublicKey where
  "RaydiumLaunchpadV1ProgramID = ''LanMV9sAd7wArD4vJFi2qDdfnVhFxYSUg6eADduJ3uj''"

definition RaydiumCpSwapProgramID :: PublicKey where
  "RaydiumCpSwapProgramID = ''CPMMoo8L3F4NbTegBCKVNunggL7H1ZpdTHKxQB5qKP1C''"

definition RaydiumUnknownProgramID1 :: PublicKey where
  "RaydiumUnknownProgramID1 = ''FoaFt2Dtz58RA6DPjbRb9t9z8sLJRChiGFTv21EfaseZ''"

definition RaydiumUnknownProgramID2 :: PublicKey where
  "RaydiumUnknownProgramID2 = ''LanMV9sAd7wArD4vJFi2qDdfnVhFxYSUg6eADduJ3uj''"

definition TokenProgramID :: PublicKey where
  "TokenProgramID = ''TokenkegQfeZyiNwAJbNbGKPFXCWuBvf9Ss623VQ5DA''"

definition Token2022ProgramID :: PublicKey where
  "Token2022ProgramID = ''TokenzQdBNbLqP5VEhdkAS6EPFLC1PHnBqCXEpPxuEb''"

definition SystemProgramID :: PublicKey where
  "SystemProgramID = ''11111111111111111111111111111111''"

definition zeroKey :: PublicKey where
  "zeroKey = ''11111111111111111111111111111111''"

definition solMint :: PublicKey where
  "solMint = ''So11111111111111111111111111111111111111112''"

definition usdcMint :: PublicKey where
  "usdcMint = ''EPjFWdd5AufqSSqeM2qN1xzybapC8G4wEGGkZwyTDt1v''"

definition usdtMint :: PublicKey where
  "usdtMint = ''Es9vMFrzaCERmJfrF4H2FYD4KCoNkY11McCe8BenwNYB''"

definition INSTRUCTION_INITIALIZE_POOL :: byte where "INSTRUCTION_INITIALIZE_POOL = 0"
definition INSTRUCTION_SWAP :: byte where "INSTRUCTION_SWAP = 1"
definition INSTRUCTION_DEPOSIT :: byte where "INSTRUCTION_DEPOSIT = 2"
definition INSTRUCTION_WITHDRAW :: byte where "INSTRUCTION_WITHDRAW = 3"
definition INSTRUCTION_MIGRATE :: byte where "INSTRUCTION_MIGRATE = 4"
definition INSTRUCTION_CREATE_POOL :: byte where "INSTRUCTION_CREATE_POOL = 9"
definition INSTRUCTION_INITIALIZE :: byte where "INSTRUCTION_INITIALIZE = 10"
definition INSTRUCTION_SWAP_BASE_IN :: byte where "INSTRUCTION_SWAP_BASE_IN = 11"
definition INSTRUCTION_SWAP_BASE_OUT :: byte where "INSTRUCTION_SWAP_BASE_OUT = 12"
definition INSTRUCTION_BUY :: byte where "INSTRUCTION_BUY = 6"
definition INSTRUCTION_SELL :: byte where "INSTRUCTION_SELL = 7"
definition TOKEN_INSTRUCTION_TRANSFER :: byte where "TOKEN_INSTRUCTION_TRANSFER = 3"
definition TOKEN_INSTRUCTION_MINT_TO :: byte where "TOKEN_INSTRUCTION_MINT_TO = 7"

section \<open>Reading bytes and keys\<close>

text \<open>
  \<^verbatim>\<open>binary.LittleEndian.Uint64(data[lo:lo+8])\<close>. Every such read in the engine follows a
  check that \<^verbatim>\<open>len(data) >= lo+8\<close>, so the slice expression itself never panics.
\<close>

definition Uint64 :: "byte list \<Rightarrow> uint64" where
  "Uint64 b = foldr (\<lambda>x acc. ucast x + push_bit 8 acc) (take 8 b) 0"

definition Uint64At :: "byte list \<Rightarrow> nat \<Rightarrow> uint64" where
  "Uint64At d lo = Uint64 (take 8 (drop lo d))"

text \<open>\<^verbatim>\<open>message.AccountKeys[i]\<close>: an index out of range panics.\<close>

definition keyAt :: "Message \<Rightarrow> nat \<Rightarrow> PublicKey go" where
  "keyAt message i =
     (if i < length (AccountKeys message) then Ret (AccountKeys message ! i) else Panic)"

definition IsZero :: "PublicKey \<Rightarrow> bool" where
  "IsZero k \<longleftrightarrow> k = zeroKey"

section \<open>Helper functions\<close>

definition isBaseCurrency :: "PublicKey \<Rightarrow> bool" where
  "isBaseCurrency tokenMint \<longleftrightarrow>
     tokenMint = solMint \<or> tokenMint = usdcMint \<or> tokenMint = usdtMint"

definition getKnownTokenInfo :: "PublicKey \<Rightarrow> TokenInfo option" where
  "getKnownTokenInfo tokenMint =
     (if tokenMint = ''So11111111111111111111111111111111111111112'' then
        Some \<lparr>Mint = ''So11111111111111111111111111111111111111112'', Symbol = ''SOL'',
              Name = ''Solana'', Decimals = 9\<rparr>
      else if tokenMint = ''EPjFWdd5AufqSSqeM2qN1xzybapC8G4wEGGkZwyTDt1v'' then
        Some \<lparr>Mint = ''EPjFWdd5AufqSSqeM2qN1xzybapC8G4wEGGkZwyTDt1v'', Symbol = ''USDC'',
              Name = ''USD Coin'', Decimals = 6\<rparr>
      else if tokenMint = ''Es9vMFrzaCERmJfrF4H2FYD4KCoNkY11McCe8BenwNYB'' then
        Some \<lparr>Mint = ''Es9vMFrzaCERmJfrF4H2FYD4KCoNkY11McCe8BenwNYB'', Symbol = ''USDT'',
              Name = ''Tether USD'', Decimals = 6\<rparr>
      else None)"


section \<open>Slippage\<close>

text \<open>
  The value of a \<^verbatim>\<open>float64\<close> operation is the exact result rounded to the nearest
  number with a 53-bit significand, ties to even. The exponent is left unbounded: the
  engine only converts unsigned 64-bit integers and divides one such value by another
  that is not smaller, so every value lies between \<open>2\<^sup>-\<^sup>6\<^sup>4\<close> and \<open>2\<^sup>6\<^sup>4\<close>,
  far from the overflow and subnormal ranges.
\<close>

definition pow2 :: "int \<Rightarrow> rat" where
  "pow2 e = (if 0 \<le> e then 2 ^ nat e else 1 / 2 ^ nat (- e))"

definition round_half_even :: "rat \<Rightarrow> int" where
  "round_half_even q =
     (let f = \<lfloor>q\<rfloor>; d = q - of_int f
      in if d < 1 / 2 then f else if 1 / 2 < d then f + 1 else if even f then f else f + 1)"

text \<open>The exponent \<open>e\<close> with \<open>2\<^sup>e \<le> q < 2\<^sup>e\<^sup>+\<^sup>1\<close>, for positive \<open>q\<close>.\<close>

definition floor_log2 :: "rat \<Rightarrow> int" where
  "floor_log2 q = (if 1 \<le> q then bitlen \<lfloor>q\<rfloor> - 1 else - bitlen (\<lceil>1 / q\<rceil> - 1))"

definition f64_round :: "rat \<Rightarrow> float64" where
  "f64_round q =
     (if q = 0 then 0
      else let a = \<bar>q\<bar>; u = pow2 (floor_log2 a - 52)
           in sgn q * (of_int (round_half_even (a / u)) * u))"

text \<open>\<^verbatim>\<open>float64(x)\<close> for an unsigned 64-bit \<open>x\<close>, and the division of two floats.\<close>

definition float64_of :: "uint64 \<Rightarrow> float64" where
  "float64_of x = f64_round (of_int (uint x))"

definition f64_div :: "float64 \<Rightarrow> float64 \<Rightarrow> float64" where
  "f64_div x y = f64_round (x / y)"

definition calculateSlippage :: "uint64 \<Rightarrow> uint64 \<Rightarrow> float64" where
  "calculateSlippage actualAmount expectedAmount =
     (if expectedAmount = 0 then 0
      else if actualAmount \<ge> expectedAmount then 0
      else f64_div (float64_of (expectedAmount - actualAmount)) (float64_of expectedAmount))"

section \<open>Decoders of the standard format\<close>

definition parseCreatePoolInstruction ::
  "CompiledInstruction \<Rightarrow> Message \<Rightarrow> int \<Rightarrow> Transaction \<Rightarrow> parsed" where
  "parseCreatePoolInstruction instruction message index result =
     (if length (CompiledInstruction.Accounts instruction) < 8 then
        fail ''insufficient accounts for pool creation'' result
      else
        let d = CompiledInstruction.Data instruction;
            tokenDecimals = (if length d \<ge> 17 then d ! 9 else if length d \<ge> 10 then d ! 9 else 9);
            initialLiquidity = (if length d \<ge> 17 then Uint64At d 9 else 0)
        in case keyAt message (unat (CompiledInstruction.Accounts instruction ! 0)) of
             Panic \<Rightarrow> Panic
           | Ret tokenMint \<Rightarrow>
        (case keyAt message (unat (CompiledInstruction.Accounts instruction ! 1)) of
             Panic \<Rightarrow> Panic
           | Ret poolAddress \<Rightarrow>
        (case keyAt message (unat (CompiledInstruction.Accounts instruction ! 2)) of
             Panic \<Rightarrow> Panic
           | Ret creator \<Rightarrow>
        let tokenSymbol = (case getKnownTokenInfo tokenMint of
                             Some tokenInfo \<Rightarrow> Symbol tokenInfo | None \<Rightarrow> ''UNKNOWN'');
            createInfo = \<lparr>TokenMint = tokenMint, TokenDecimals = tokenDecimals,
                          TokenSymbol = tokenSymbol, PoolAddress = poolAddress,
                          Creator = creator, CreateInfo.Amount = initialLiquidity,
                          CreateInfo.Timestamp = 0\<rparr>
        in ok (result\<lparr>Create := Create result @ [createInfo]\<rparr>))))"

definition parseSwapInstruction ::
  "CompiledInstruction \<Rightarrow> Message \<Rightarrow> int \<Rightarrow> Transaction \<Rightarrow> parsed" where
  "parseSwapInstruction instruction message index result =
     (if length (CompiledInstruction.Accounts instruction) < 6 then
        fail ''insufficient accounts for swap'' result
      else
        let d = CompiledInstruction.Data instruction;
            amountIn = (if length d \<ge> 17 then Uint64At d 1
                        else if length d \<ge> 9 then Uint64At d 1 else 0);
            minAmountOut = (if length d \<ge> 17 then Uint64At d 9 else 0)
        in case keyAt message (unat (CompiledInstruction.Accounts instruction ! 0)) of
             Panic \<Rightarrow> Panic
           | Ret tokenIn \<Rightarrow>
        (case keyAt message (unat (CompiledInstruction.Accounts instruction ! 1)) of
             Panic \<Rightarrow> Panic
           | Ret tokenOut \<Rightarrow>
        (case keyAt message (unat (CompiledInstruction.Accounts instruction ! 2)) of
             Panic \<Rightarrow> Panic
           | Ret pool \<Rightarrow>
        (case keyAt message 0 of
             Panic \<Rightarrow> Panic
           | Ret trader \<Rightarrow>
        let tradeInfo = \<lparr>InstructionIndex = index, TradeInfo.TokenIn = tokenIn,
                         TradeInfo.TokenOut = tokenOut, TradeInfo.AmountIn = amountIn,
                         TradeInfo.AmountOut = 0, Trader = trader, TradeInfo.Pool = pool,
                         TradeType = ''swap''\<rparr>;
            result1 = result\<lparr>Trade := Trade result @ [tradeInfo]\<rparr>
        in if isBaseCurrency tokenIn then
             ok (result1\<lparr>TradeBuys := TradeBuys result1 @ [index],
                         SwapBuys := SwapBuys result1 @
                           [\<lparr>SwapBuy.TokenIn = tokenIn, SwapBuy.TokenOut = tokenOut,
                             SwapBuy.AmountIn = amountIn,
                             SwapBuy.AmountOut = TradeInfo.AmountOut tradeInfo,
                             SwapBuy.MinAmountOut = minAmountOut, SwapBuy.Pool = pool,
                             Buyer = trader, SwapBuy.Slippage = 0\<rparr>]\<rparr>)
           else
             ok (result1\<lparr>TradeSells := TradeSells result1 @ [index],
                         SwapSells := SwapSells result1 @
                           [\<lparr>SwapSell.TokenIn = tokenIn, SwapSell.TokenOut = tokenOut,
                             SwapSell.AmountIn = amountIn,
                             SwapSell.AmountOut = TradeInfo.AmountOut tradeInfo,
                             SwapSell.MinAmountOut = minAmountOut, SwapSell.Pool = pool,
                             Seller = trader, SwapSell.Slippage = 0\<rparr>]\<rparr>)))))"

text \<open>
  The buy and sell decoders check the bounds of the token and pool indices and leave the
  key at its zero value when the index is out of range; the trader is
  \<^verbatim>\<open>message.AccountKeys[0]\<close>, unchecked.
\<close>

definition keyAtOrZero :: "CompiledInstruction \<Rightarrow> Message \<Rightarrow> nat \<Rightarrow> PublicKey" where
  "keyAtOrZero instruction message k =
     (if length (CompiledInstruction.Accounts instruction) > k
         \<and> unat (CompiledInstruction.Accounts instruction ! k) < length (AccountKeys message)
      then AccountKeys message ! unat (CompiledInstruction.Accounts instruction ! k)
      else zeroKey)"

definition parseBuyInstructionStandard ::
  "CompiledInstruction \<Rightarrow> Message \<Rightarrow> int \<Rightarrow> Transaction \<Rightarrow> parsed" where
  "parseBuyInstructionStandard instruction message index result =
     (if length (CompiledInstruction.Accounts instruction) < 6 then
        fail ''insufficient accounts for buy'' result
      else
        let d = CompiledInstruction.Data instruction;
            amountIn = (if length d \<ge> 17 then Uint64At d 1 else 0);
            maxAmountIn = (if length d \<ge> 17 then Uint64At d 9 else 0);
            tokenOut = keyAtOrZero instruction message 1;
            pool = keyAtOrZero instruction message 2
        in case keyAt message 0 of
             Panic \<Rightarrow> Panic
           | Ret trader \<Rightarrow>
        let tradeInfo = \<lparr>InstructionIndex = index, TradeInfo.TokenIn = solMint,
                         TradeInfo.TokenOut = tokenOut, TradeInfo.AmountIn = amountIn,
                         TradeInfo.AmountOut = 0, Trader = trader, TradeInfo.Pool = pool,
                         TradeType = ''buy''\<rparr>;
            slippage = (if maxAmountIn > 0 \<and> amountIn > 0
                        then calculateSlippage amountIn maxAmountIn else 0)
        in ok (result\<lparr>Trade := Trade result @ [tradeInfo],
                      TradeBuys := TradeBuys result @ [index],
                      SwapBuys := SwapBuys result @
                        [\<lparr>SwapBuy.TokenIn = TradeInfo.TokenIn tradeInfo,
                          SwapBuy.TokenOut = TradeInfo.TokenOut tradeInfo,
                          SwapBuy.AmountIn = amountIn,
                          SwapBuy.AmountOut = TradeInfo.AmountOut tradeInfo,
                          SwapBuy.MinAmountOut = 0,
                          SwapBuy.Pool = TradeInfo.Pool tradeInfo,
                          Buyer = Trader tradeInfo, SwapBuy.Slippage = slippage\<rparr>]\<rparr>))"

definition parseSellInstructionStandard ::
  "CompiledInstruction \<Rightarrow> Message \<Rightarrow> int \<Rightarrow> Transaction \<Rightarrow> parsed" where
  "parseSellInstructionStandard instruction message index result =
     (if length (CompiledInstruction.Accounts instruction) < 6 then
        fail ''insufficient accounts for sell'' result
      else
        let d = CompiledInstruction.Data instruction;
            amountIn = (if length d \<ge> 17 then Uint64At d 1 else 0);
            minAmountOut = (if length d \<ge> 17 then Uint64At d 9 else 0);
            tokenIn = keyAtOrZero instruction message 0;
            pool = keyAtOrZero instruction message 2
        in case keyAt message 0 of
             Panic \<Rightarrow> Panic
           | Ret trader \<Rightarrow>
        let tradeInfo = \<lparr>InstructionIndex = index, TradeInfo.TokenIn = tokenIn,
                         TradeInfo.TokenOut = solMint, TradeInfo.AmountIn = amountIn,
                         TradeInfo.AmountOut = 0, Trader = trader, TradeInfo.Pool = pool,
                         TradeType = ''sell''\<rparr>;
            slippage = (if minAmountOut > 0 \<and> TradeInfo.AmountOut tradeInfo > 0
                        then calculateSlippage (TradeInfo.AmountOut tradeInfo) minAmountOut
                        else 0)
        in ok (result\<lparr>Trade := Trade result @ [tradeInfo],
                      TradeSells := TradeSells result @ [index],
                      SwapSells := SwapSells result @
                        [\<lparr>SwapSell.TokenIn = TradeInfo.TokenIn tradeInfo,
                          SwapSell.TokenOut = TradeInfo.TokenOut tradeInfo,
                          SwapSell.AmountIn = amountIn,
                          SwapSell.AmountOut = TradeInfo.AmountOut tradeInfo,
                          SwapSell.MinAmountOut = minAmountOut,
                          SwapSell.Pool = TradeInfo.Pool tradeInfo,
                          Seller = Trader tradeInfo, SwapSell.Slippage = slippage\<rparr>]\<rparr>))"

text \<open>
  The deposit, withdraw, staking, liquidity and token decoders only write to the log: on
  every path they return no error and leave the result as it is.
\<close>

definition parseDepositInstruction ::
  "CompiledInstruction \<Rightarrow> Message \<Rightarrow> int \<Rightarrow> Transaction \<Rightarrow> parsed" where
  "parseDepositInstruction instruction message index result = ok result"

definition parseWithdrawInstruction ::
  "CompiledInstruction \<Rightarrow> Message \<Rightarrow> int \<Rightarrow> Transaction \<Rightarrow> parsed" where
  "parseWithdrawInstruction instruction message index result = ok result"

definition parseMigrateInstruction ::
  "CompiledInstruction \<Rightarrow> Message \<Rightarrow> int \<Rightarrow> Transaction \<Rightarrow> parsed" where
  "parseMigrateInstruction instruction message index result =
     (if length (CompiledInstruction.Accounts instruction) < 4 then
        fail ''insufficient accounts for migration'' result
      else
        let d = CompiledInstruction.Data instruction;
            amount = (if length d \<ge> 9 then Uint64At d 1 else 0)
        in case keyAt message (unat (CompiledInstruction.Accounts instruction ! 0)) of
             Panic \<Rightarrow> Panic
           | Ret fromPool \<Rightarrow>
        (case keyAt message (unat (CompiledInstruction.Accounts instruction ! 1)) of
             Panic \<Rightarrow> Panic
           | Ret toPool \<Rightarrow>
        (case keyAt message (unat (CompiledInstruction.Accounts instruction ! 2)) of
             Panic \<Rightarrow> Panic
           | Ret token \<Rightarrow>
        (case keyAt message (unat (CompiledInstruction.Accounts instruction ! 3)) of
             Panic \<Rightarrow> Panic
           | Ret owner \<Rightarrow>
        ok (result\<lparr>Migrate := Migrate result @
              [\<lparr>FromPool = fromPool, ToPool = toPool, Token = token,
                Migration.Amount = amount, Owner = owner, Migration.Timestamp = 0\<rparr>]\<rparr>)))))"

definition parseStakingInstruction ::
  "CompiledInstruction \<Rightarrow> Message \<Rightarrow> int \<Rightarrow> Transaction \<Rightarrow> parsed" where
  "parseStakingInstruction instruction message index result = ok result"

definition parseLiquidityInstruction ::
  "CompiledInstruction \<Rightarrow> Message \<Rightarrow> int \<Rightarrow> Transaction \<Rightarrow> parsed" where
  "parseLiquidityInstruction instruction message index result = ok result"

definition parseTokenTransferInstructionStandard ::
  "CompiledInstruction \<Rightarrow> Message \<Rightarrow> int \<Rightarrow> Transaction \<Rightarrow> parsed" where
  "parseTokenTransferInstructionStandard instruction message index result = ok result"

definition parseTokenMintInstructionStandard ::
  "CompiledInstruction \<Rightarrow> Message \<Rightarrow> int \<Rightarrow> Transaction \<Rightarrow> parsed" where
  "parseTokenMintInstructionStandard instruction message index result = ok result"

definition parseTokenInstruction ::
  "CompiledInstruction \<Rightarrow> Message \<Rightarrow> int \<Rightarrow> Transaction \<Rightarrow> parsed" where
  "parseTokenInstruction instruction message index result =
     (if length (CompiledInstruction.Data instruction) = 0 then ok result
      else
        let discriminator = CompiledInstruction.Data instruction ! 0
        in if discriminator = TOKEN_INSTRUCTION_TRANSFER then
             parseTokenTransferInstructionStandard instruction message index result
           else if discriminator = TOKEN_INSTRUCTION_MINT_TO then
             parseTokenMintInstructionStandard instruction message index result
           else ok result)"


section \<open>Fallback decoders of the standard format\<close>

text \<open>
  The body shared by the two account scans of \<^verbatim>\<open>parseAsSwapInstruction\<close>: the first
  account that is kept becomes the output token, the second the pool.
\<close>

definition assignTokenOutOrPool ::
  "PublicKey \<Rightarrow> PublicKey \<times> PublicKey \<Rightarrow> PublicKey \<times> PublicKey" where
  "assignTokenOutOrPool account st =
     (case st of (tokenOut, pool) \<Rightarrow>
        if IsZero tokenOut then (account, pool)
        else if IsZero pool then (tokenOut, account)
        else (tokenOut, pool))"

text \<open>The loop over the instruction's accounts, \<^verbatim>\<open>i < len(instruction.Accounts) && i < 10\<close>.\<close>

fun scanInstructionAccounts ::
  "16 word list \<Rightarrow> Message \<Rightarrow> PublicKey \<Rightarrow> PublicKey \<times> PublicKey \<Rightarrow> PublicKey \<times> PublicKey" where
  "scanInstructionAccounts [] message trader st = st"
| "scanInstructionAccounts (a # rest) message trader st =
     (let accountIndex = unat a
      in if accountIndex < length (AccountKeys message) then
           (let account = AccountKeys message ! accountIndex
            in if account = trader then scanInstructionAccounts rest message trader st
               else if account = solMint then scanInstructionAccounts rest message trader st
               else if account = SystemProgramID \<or> account = TokenProgramID then
                 scanInstructionAccounts rest message trader st
               else scanInstructionAccounts rest message trader (assignTokenOutOrPool account st))
         else scanInstructionAccounts rest message trader st)"

text \<open>The loop over the message's accounts, \<^verbatim>\<open>i := 1; i < len(message.AccountKeys) && i < 10\<close>.\<close>

fun scanMessageAccounts ::
  "PublicKey list \<Rightarrow> PublicKey \<Rightarrow> PublicKey \<times> PublicKey \<Rightarrow> PublicKey \<times> PublicKey" where
  "scanMessageAccounts [] trader st = st"
| "scanMessageAccounts (account # rest) trader st =
     (if account = SystemProgramID \<or> account = TokenProgramID
         \<or> account = solMint \<or> account = trader
      then scanMessageAccounts rest trader st
      else scanMessageAccounts rest trader (assignTokenOutOrPool account st))"

text \<open>
  The output token and the pool that the two scans of \<^verbatim>\<open>parseAsSwapInstruction\<close>
  settle on: both start at the zero key, and the second scan runs only when the first
  has found no output token.
\<close>

definition guessTokenOutAndPool ::
  "CompiledInstruction \<Rightarrow> Message \<Rightarrow> PublicKey \<Rightarrow> PublicKey \<times> PublicKey" where
  "guessTokenOutAndPool instruction message trader =
     (let st1 = scanInstructionAccounts (take 10 (CompiledInstruction.Accounts instruction))
                  message trader (zeroKey, zeroKey)
      in if IsZero (fst st1)
         then scanMessageAccounts (take 9 (drop 1 (AccountKeys message))) trader st1
         else st1)"

definition parseAsSwapInstruction ::
  "CompiledInstruction \<Rightarrow> Message \<Rightarrow> int \<Rightarrow> Transaction \<Rightarrow> parsed" where
  "parseAsSwapInstruction instruction message index result =
     (let d = CompiledInstruction.Data instruction;
          amountIn = (if length d \<ge> 16 then Uint64At d 8 else 0);
          minAmountOut = (if length d \<ge> 16 \<and> length d \<ge> 24 then Uint64At d 16 else 0);
          trader = (if length (AccountKeys message) > 0 then AccountKeys message ! 0 else zeroKey);
          tokenIn = solMint;
          tokenOut = fst (guessTokenOutAndPool instruction message trader);
          pool = snd (guessTokenOutAndPool instruction message trader);
          tradeInfo = \<lparr>InstructionIndex = index, TradeInfo.TokenIn = tokenIn,
                       TradeInfo.TokenOut = tokenOut, TradeInfo.AmountIn = amountIn,
                       TradeInfo.AmountOut = 0, Trader = trader, TradeInfo.Pool = pool,
                       TradeType = ''swap''\<rparr>;
          result1 = result\<lparr>Trade := Trade result @ [tradeInfo]\<rparr>
      in if isBaseCurrency tokenIn then
           ok (result1\<lparr>TradeBuys := TradeBuys result1 @ [index],
                       SwapBuys := SwapBuys result1 @
                         [\<lparr>SwapBuy.TokenIn = tokenIn, SwapBuy.TokenOut = tokenOut,
                           SwapBuy.AmountIn = amountIn,
                           SwapBuy.AmountOut = TradeInfo.AmountOut tradeInfo,
                           SwapBuy.MinAmountOut = minAmountOut, SwapBuy.Pool = pool,
                           Buyer = trader, SwapBuy.Slippage = 0\<rparr>]\<rparr>)
         else
           ok (result1\<lparr>TradeSells := TradeSells result1 @ [index],
                       SwapSells := SwapSells result1 @
                         [\<lparr>SwapSell.TokenIn = tokenIn, SwapSell.TokenOut = tokenOut,
                           SwapSell.AmountIn = amountIn,
                           SwapSell.AmountOut = TradeInfo.AmountOut tradeInfo,
                           SwapSell.MinAmountOut = minAmountOut, SwapSell.Pool = pool,
                           Seller = trader, SwapSell.Slippage = 0\<rparr>]\<rparr>))"

definition parseAsCreateOrMigrateInstruction ::
  "CompiledInstruction \<Rightarrow> Message \<Rightarrow> int \<Rightarrow> Transaction \<Rightarrow> parsed" where
  "parseAsCreateOrMigrateInstruction instruction message index result =
     (if length (CompiledInstruction.Accounts instruction) \<ge> 8 then
        parseCreatePoolInstruction instruction message index result
      else if length (CompiledInstruction.Accounts instruction) \<ge> 4 then
        parseMigrateInstruction instruction message index result
      else ok result)"

definition parseGenericRaydiumInstruction ::
  "CompiledInstruction \<Rightarrow> Message \<Rightarrow> int \<Rightarrow> Transaction \<Rightarrow> uint64 \<Rightarrow> parsed" where
  "parseGenericRaydiumInstruction instruction message index result discriminator =
     (if length (CompiledInstruction.Accounts instruction) \<ge> 6
         \<and> length (CompiledInstruction.Data instruction) \<ge> 16 then
        parseAsSwapInstruction instruction message index result
      else if length (CompiledInstruction.Accounts instruction) \<ge> 4
         \<and> length (CompiledInstruction.Data instruction) \<ge> 8 then
        parseAsCreateOrMigrateInstruction instruction message index result
      else ok result)"

text \<open>
  The local \<^verbatim>\<open>dataStart\<close> of \<^verbatim>\<open>parseGenericLaunchpadInstruction\<close>: the payload is
  taken to start after an 8-byte discriminator when there are 8 bytes, after one byte
  otherwise.
\<close>

definition dataStart :: "byte list \<Rightarrow> nat" where
  "dataStart d = (if length d \<ge> 8 then 8 else 1)"

definition parseGenericLaunchpadInstruction ::
  "CompiledInstruction \<Rightarrow> Message \<Rightarrow> int \<Rightarrow> Transaction \<Rightarrow> uint64 \<Rightarrow> parsed" where
  "parseGenericLaunchpadInstruction instruction message index result discriminator =
     (let n = length (CompiledInstruction.Accounts instruction);
          d = CompiledInstruction.Data instruction
      in if n \<ge> 8 \<and> length d \<ge> dataStart d + 32 then
           parseCreatePoolInstruction instruction message index result
         else if n \<ge> 6 \<and> length d \<ge> dataStart d + 16 \<and> length d \<ge> dataStart d + 16
                 \<and> (if length d \<ge> dataStart d + 8 then Uint64At d (dataStart d) else 0) > 0 then
           (case parseBuyInstructionStandard instruction message index result of
              Panic \<Rightarrow> Panic
            | Ret (None, result1) \<Rightarrow> ok result1
            | Ret (Some err, result1) \<Rightarrow>
                parseSellInstructionStandard instruction message index result1)
         else if n \<ge> 4 \<and> length d \<ge> dataStart d + 8 then
           parseSwapInstruction instruction message index result
         else ok result)"

section \<open>Discriminator resolution\<close>

definition COMPLEX_INITIALIZE :: uint64 where "COMPLEX_INITIALIZE = 0x175d3d5b8c84f4aa"
definition COMPLEX_SWAP :: uint64 where "COMPLEX_SWAP = 0xf8c69e91e17587c8"
definition COMPLEX_BUY :: uint64 where "COMPLEX_BUY = 0x66063d1201daebea"
definition COMPLEX_SELL :: uint64 where "COMPLEX_SELL = 0xb712469c946da122"
definition COMPLEX_UNKNOWN_1 :: uint64 where "COMPLEX_UNKNOWN_1 = 0x1a987cd39bde2795"
definition COMPLEX_UNKNOWN_2 :: uint64 where "COMPLEX_UNKNOWN_2 = 0x0400000001010d09"

definition LAUNCHPAD_INITIALIZE :: uint64 where "LAUNCHPAD_INITIALIZE = 0x175d3d5b8c84f4aa"
definition LAUNCHPAD_BUY :: uint64 where "LAUNCHPAD_BUY = 0x66063d1201daebea"
definition LAUNCHPAD_SELL :: uint64 where "LAUNCHPAD_SELL = 0xb712469c946da122"
definition LAUNCHPAD_SWAP :: uint64 where "LAUNCHPAD_SWAP = 0xf8c69e91e17587c8"
definition LAUNCHPAD_MIGRATE :: uint64 where "LAUNCHPAD_MIGRATE = 0x4a4c4e5d6f7e8f9a"
definition LAUNCHPAD_REAL_1 :: uint64 where "LAUNCHPAD_REAL_1 = 0x0663c1f6e7b8d9ea"
definition LAUNCHPAD_REAL_2 :: uint64 where "LAUNCHPAD_REAL_2 = 0x1b4c5d6e7f8a9b0c"
definition LAUNCHPAD_REAL_3 :: uint64 where "LAUNCHPAD_REAL_3 = 0x2e5f6a7b8c9d0e1f"

definition parseComplexRaydiumInstruction ::
  "CompiledInstruction \<Rightarrow> Message \<Rightarrow> int \<Rightarrow> Transaction \<Rightarrow> uint64 \<Rightarrow> parsed" where
  "parseComplexRaydiumInstruction instruction message index result discriminator =
     (if discriminator = COMPLEX_INITIALIZE then
        parseCreatePoolInstruction instruction message index result
      else if discriminator = COMPLEX_SWAP then
        parseSwapInstruction instruction message index result
      else if discriminator = COMPLEX_BUY then
        parseBuyInstructionStandard instruction message index result
      else if discriminator = COMPLEX_SELL then
        parseSellInstructionStandard instruction message index result
      else if discriminator = COMPLEX_UNKNOWN_1 \<or> discriminator = COMPLEX_UNKNOWN_2 then
        parseGenericRaydiumInstruction instruction message index result discriminator
      else parseGenericRaydiumInstruction instruction message index result discriminator)"

definition parseRaydiumInstruction ::
  "CompiledInstruction \<Rightarrow> Message \<Rightarrow> int \<Rightarrow> Transaction \<Rightarrow> parsed" where
  "parseRaydiumInstruction instruction message index result =
     (let d = CompiledInstruction.Data instruction
      in if length d = 0 then fail ''instruction data is empty'' result
         else
           let discriminator = d ! 0
           in if length d \<ge> 8 \<and> Uint64At d 0 \<noteq> 0 then
                parseComplexRaydiumInstruction instruction message index result (Uint64At d 0)
              else if discriminator = INSTRUCTION_INITIALIZE_POOL
                      \<or> discriminator = INSTRUCTION_CREATE_POOL then
                parseCreatePoolInstruction instruction message index result
              else if discriminator = INSTRUCTION_SWAP
                      \<or> discriminator = INSTRUCTION_SWAP_BASE_IN
                      \<or> discriminator = INSTRUCTION_SWAP_BASE_OUT then
                parseSwapInstruction instruction message index result
              else if discriminator = INSTRUCTION_BUY then
                parseBuyInstructionStandard instruction message index result
              else if discriminator = INSTRUCTION_SELL then
                parseSellInstructionStandard instruction message index result
              else if discriminator = INSTRUCTION_DEPOSIT then
                parseDepositInstruction instruction message index result
              else if discriminator = INSTRUCTION_WITHDRAW then
                parseWithdrawInstruction instruction message index result
              else if discriminator = INSTRUCTION_MIGRATE then
                parseMigrateInstruction instruction message index result
              else ok result)"

definition parseComplexLaunchpadInstruction ::
  "CompiledInstruction \<Rightarrow> Message \<Rightarrow> int \<Rightarrow> Transaction \<Rightarrow> uint64 \<Rightarrow> parsed" where
  "parseComplexLaunchpadInstruction instruction message index result discriminator =
     (if discriminator = LAUNCHPAD_INITIALIZE then
        parseCreatePoolInstruction instruction message index result
      else if discriminator = LAUNCHPAD_BUY \<or> discriminator = LAUNCHPAD_REAL_2 then
        parseBuyInstructionStandard instruction message index result
      else if discriminator = LAUNCHPAD_SELL then
        parseSellInstructionStandard instruction message index result
      else if discriminator = LAUNCHPAD_SWAP then
        parseSwapInstruction instruction message index result
      else if discriminator = LAUNCHPAD_MIGRATE then
        parseMigrateInstruction instruction message index result
      else if discriminator = LAUNCHPAD_REAL_1 \<or> discriminator = LAUNCHPAD_REAL_3 then
        parseGenericLaunchpadInstruction instruction message index result discriminator
      else parseGenericLaunchpadInstruction instruction message index result discriminator)"

definition parseRaydiumLaunchpadInstructionStandard ::
  "CompiledInstruction \<Rightarrow> Message \<Rightarrow> int \<Rightarrow> Transaction \<Rightarrow> parsed" where
  "parseRaydiumLaunchpadInstructionStandard instruction message index result =
     (let d = CompiledInstruction.Data instruction
      in if length d = 0 then fail ''launchpad instruction data is empty'' result
         else
           let discriminator = d ! 0
           in if length d \<ge> 8 \<and> Uint64At d 0 \<noteq> 0 then
                parseComplexLaunchpadInstruction instruction message index result (Uint64At d 0)
              else if discriminator = INSTRUCTION_INITIALIZE
                      \<or> discriminator = INSTRUCTION_INITIALIZE_POOL
                      \<or> discriminator = INSTRUCTION_CREATE_POOL then
                parseCreatePoolInstruction instruction message index result
              else if discriminator = INSTRUCTION_BUY then
                parseBuyInstructionStandard instruction message index result
              else if discriminator = INSTRUCTION_SELL then
                parseSellInstructionStandard instruction message index result
              else if discriminator = INSTRUCTION_SWAP
                      \<or> discriminator = INSTRUCTION_SWAP_BASE_IN
                      \<or> discriminator = INSTRUCTION_SWAP_BASE_OUT then
                parseSwapInstruction instruction message index result
              else if discriminator = INSTRUCTION_MIGRATE then
                parseMigrateInstruction instruction message index result
              else parseGenericLaunchpadInstruction instruction message index result
                     (ucast discriminator))"

section \<open>Program routing and the instruction loop\<close>

definition parseInstruction ::
  "CompiledInstruction \<Rightarrow> Message \<Rightarrow> int \<Rightarrow> Transaction \<Rightarrow> parsed" where
  "parseInstruction instruction message index result =
     (if unat (ProgramIDIndex instruction) \<ge> length (AccountKeys message) then
        Ret (Some (InvalidProgramIDIndex (ProgramIDIndex instruction)), result)
      else
        let programID = AccountKeys message ! unat (ProgramIDIndex instruction)
        in if programID = RaydiumV4ProgramID \<or> programID = RaydiumV5ProgramID then
             parseRaydiumInstruction instruction message index result
           else if programID = RaydiumStakingProgramID then
             parseStakingInstruction instruction message index result
           else if programID = RaydiumLiquidityProgramID then
             parseLiquidityInstruction instruction message index result
           else if programID = RaydiumLaunchpadV1ProgramID then
             parseRaydiumLaunchpadInstructionStandard instruction message index result
           else if programID = RaydiumCpSwapProgramID then
             parseRaydiumInstruction instruction message index result
           else if programID = RaydiumUnknownProgramID1 \<or> programID = RaydiumUnknownProgramID2 then
             parseRaydiumInstruction instruction message index result
           else if programID = TokenProgramID then
             parseTokenInstruction instruction message index result
           else ok result)"

text \<open>
  The loop of \<^verbatim>\<open>parseStandardTransactionWithSignature\<close> (and of
  \<^verbatim>\<open>parseStandardTransaction\<close>) over \<^verbatim>\<open>tx.Message.Instructions\<close>: an error is logged
  and the loop goes on; a panic ends it. \<open>i\<close> is the index of the first instruction of
  the list.
\<close>

fun parseInstructions ::
  "CompiledInstruction list \<Rightarrow> Message \<Rightarrow> int \<Rightarrow> Transaction \<Rightarrow> Transaction go" where
  "parseInstructions [] message i result = Ret result"
| "parseInstructions (instruction # rest) message i result =
     (case parseInstruction instruction message i result of
        Panic \<Rightarrow> Panic
      | Ret (err, result1) \<Rightarrow> parseInstructions rest message (i + 1) result1)"

definition newTransaction :: "string \<Rightarrow> uint64 \<Rightarrow> Transaction" where
  "newTransaction sig slot =
     \<lparr>Transaction.Signature = sig, Transaction.Slot = slot, Create = [], Trade = [],
      TradeBuys = [], TradeSells = [], Migrate = [], SwapBuys = [], SwapSells = []\<rparr>"

text \<open>
  \<^verbatim>\<open>parseStandardTransactionWithSignature\<close> after the envelope has been decoded by
  the Solana library: the message's instructions are parsed into a fresh result.
\<close>

definition parseStandardTransactionWithSignature ::
  "CompiledInstruction list \<Rightarrow> Message \<Rightarrow> uint64 \<Rightarrow> string \<Rightarrow> Transaction go" where
  "parseStandardTransactionWithSignature instructions message slot originalSignature =
     parseInstructions instructions message 0 (newTransaction originalSignature slot)"


section \<open>Decoders of the Geyser format\<close>

text \<open>
  A Geyser instruction carries its account keys themselves, so these decoders index
  only the instruction's own account list, after the check of its length.
\<close>

definition extractTokenSymbol :: "PublicKey \<Rightarrow> TransactionMeta option \<Rightarrow> string" where
  "extractTokenSymbol tokenMint meta =
     (case getKnownTokenInfo tokenMint of
        Some tokenInfo \<Rightarrow> Symbol tokenInfo
      | None \<Rightarrow> ''UNKNOWN'')"

definition extractAmountOutFromMeta :: "PublicKey list \<Rightarrow> TransactionMeta option \<Rightarrow> uint64" where
  "extractAmountOutFromMeta accounts meta =
     (case meta of
        None \<Rightarrow> 0
      | Some mt \<Rightarrow>
          if length (PostBalances mt) > 0 then
            (if length (PreBalances mt) > 0 \<and> length (PostBalances mt) > 0 then
               (if length (PreBalances mt) > 1 \<and> length (PostBalances mt) > 1 then
                  PostBalances mt ! 1 - PreBalances mt ! 1
                else 0)
             else 0)
          else 0)"

definition parseGeyserCreatePoolInstruction ::
  "GeyserInstruction \<Rightarrow> int \<Rightarrow> Transaction \<Rightarrow> TransactionMeta option \<Rightarrow> parsed" where
  "parseGeyserCreatePoolInstruction instruction index result meta =
     (if length (GeyserInstruction.Accounts instruction) < 8 then
        fail ''insufficient accounts for pool creation'' result
      else
        let d = GeyserInstruction.Data instruction;
            acc = GeyserInstruction.Accounts instruction;
            tokenDecimals = (if length d \<ge> 17 then d ! 9 else 9);
            initialLiquidity = (if length d \<ge> 17 then Uint64At d 9 else 0);
            tokenSymbol = extractTokenSymbol (acc ! 0) meta
        in ok (result\<lparr>Create := Create result @
                 [\<lparr>TokenMint = acc ! 0, TokenDecimals = tokenDecimals,
                   TokenSymbol = tokenSymbol, PoolAddress = acc ! 1, Creator = acc ! 2,
                   CreateInfo.Amount = initialLiquidity, CreateInfo.Timestamp = 0\<rparr>]\<rparr>))"

definition parseGeyserSwapInstruction ::
  "GeyserInstruction \<Rightarrow> int \<Rightarrow> Transaction \<Rightarrow> TransactionMeta option \<Rightarrow> parsed" where
  "parseGeyserSwapInstruction instruction index result meta =
     (if length (GeyserInstruction.Accounts instruction) < 6 then
        fail ''insufficient accounts for swap'' result
      else
        let d = GeyserInstruction.Data instruction;
            acc = GeyserInstruction.Accounts instruction;
            amountIn = (if length d \<ge> 25 then Uint64At d 1 else 0);
            minAmountOut = (if length d \<ge> 25 then Uint64At d 9 else 0);
            amountOut = (if length d \<ge> 25 then extractAmountOutFromMeta acc meta else 0);
            tradeInfo = \<lparr>InstructionIndex = index, TradeInfo.TokenIn = acc ! 0,
                         TradeInfo.TokenOut = acc ! 1, TradeInfo.AmountIn = amountIn,
                         TradeInfo.AmountOut = amountOut, Trader = acc ! 0,
                         TradeInfo.Pool = acc ! 2, TradeType = ''swap''\<rparr>;
            result1 = result\<lparr>Trade := Trade result @ [tradeInfo]\<rparr>;
            slippage = calculateSlippage amountOut minAmountOut
        in if isBaseCurrency (TradeInfo.TokenIn tradeInfo) then
             ok (result1\<lparr>TradeBuys := TradeBuys result1 @ [index],
                         SwapBuys := SwapBuys result1 @
                           [\<lparr>SwapBuy.TokenIn = TradeInfo.TokenIn tradeInfo,
                             SwapBuy.TokenOut = TradeInfo.TokenOut tradeInfo,
                             SwapBuy.AmountIn = amountIn, SwapBuy.AmountOut = amountOut,
                             SwapBuy.MinAmountOut = minAmountOut,
                             SwapBuy.Pool = TradeInfo.Pool tradeInfo,
                             Buyer = Trader tradeInfo, SwapBuy.Slippage = slippage\<rparr>]\<rparr>)
           else
             ok (result1\<lparr>TradeSells := TradeSells result1 @ [index],
                         SwapSells := SwapSells result1 @
                           [\<lparr>SwapSell.TokenIn = TradeInfo.TokenIn tradeInfo,
                             SwapSell.TokenOut = TradeInfo.TokenOut tradeInfo,
                             SwapSell.AmountIn = amountIn, SwapSell.AmountOut = amountOut,
                             SwapSell.MinAmountOut = minAmountOut,
                             SwapSell.Pool = TradeInfo.Pool tradeInfo,
                             Seller = Trader tradeInfo, SwapSell.Slippage = slippage\<rparr>]\<rparr>))"

definition parseGeyserBuyInstruction ::
  "GeyserInstruction \<Rightarrow> int \<Rightarrow> Transaction \<Rightarrow> TransactionMeta option \<Rightarrow> parsed" where
  "parseGeyserBuyInstruction instruction index result meta =
     (if length (GeyserInstruction.Accounts instruction) < 6 then
        fail ''insufficient accounts for buy'' result
      else
        let d = GeyserInstruction.Data instruction;
            acc = GeyserInstruction.Accounts instruction;
            amountIn = (if length d \<ge> 17 then Uint64At d 1 else 0);
            maxAmountIn = (if length d \<ge> 17 then Uint64At d 9 else 0);
            amountOut = extractAmountOutFromMeta acc meta;
            tradeInfo = \<lparr>InstructionIndex = index, TradeInfo.TokenIn = acc ! 0,
                         TradeInfo.TokenOut = acc ! 1, TradeInfo.AmountIn = amountIn,
                         TradeInfo.AmountOut = amountOut, Trader = acc ! 0,
                         TradeInfo.Pool = acc ! 2, TradeType = ''buy''\<rparr>;
            slippage = (if maxAmountIn > 0 \<and> amountIn > 0
                        then calculateSlippage amountIn maxAmountIn else 0)
        in ok (result\<lparr>Trade := Trade result @ [tradeInfo],
                      TradeBuys := TradeBuys result @ [index],
                      SwapBuys := SwapBuys result @
                        [\<lparr>SwapBuy.TokenIn = TradeInfo.TokenIn tradeInfo,
                          SwapBuy.TokenOut = TradeInfo.TokenOut tradeInfo,
                          SwapBuy.AmountIn = amountIn,
                          SwapBuy.AmountOut = TradeInfo.AmountOut tradeInfo,
                          SwapBuy.MinAmountOut = 0,
                          SwapBuy.Pool = TradeInfo.Pool tradeInfo,
                          Buyer = Trader tradeInfo, SwapBuy.Slippage = slippage\<rparr>]\<rparr>))"

definition parseGeyserSellInstruction ::
  "GeyserInstruction \<Rightarrow> int \<Rightarrow> Transaction \<Rightarrow> TransactionMeta option \<Rightarrow> parsed" where
  "parseGeyserSellInstruction instruction index result meta =
     (if length (GeyserInstruction.Accounts instruction) < 6 then
        fail ''insufficient accounts for sell'' result
      else
        let d = GeyserInstruction.Data instruction;
            acc = GeyserInstruction.Accounts instruction;
            amountIn = (if length d \<ge> 17 then Uint64At d 1 else 0);
            minAmountOut = (if length d \<ge> 17 then Uint64At d 9 else 0);
            amountOut = extractAmountOutFromMeta acc meta;
            tradeInfo = \<lparr>InstructionIndex = index, TradeInfo.TokenIn = acc ! 0,
                         TradeInfo.TokenOut = acc ! 1, TradeInfo.AmountIn = amountIn,
                         TradeInfo.AmountOut = amountOut, Trader = acc ! 0,
                         TradeInfo.Pool = acc ! 2, TradeType = ''sell''\<rparr>;
            slippage = (if minAmountOut > 0 \<and> TradeInfo.AmountOut tradeInfo > 0
                        then calculateSlippage (TradeInfo.AmountOut tradeInfo) minAmountOut
                        else 0)
        in ok (result\<lparr>Trade := Trade result @ [tradeInfo],
                      TradeSells := TradeSells result @ [index],
                      SwapSells := SwapSells result @
                        [\<lparr>SwapSell.TokenIn = TradeInfo.TokenIn tradeInfo,
                          SwapSell.TokenOut = TradeInfo.TokenOut tradeInfo,
                          SwapSell.AmountIn = amountIn,
                          SwapSell.AmountOut = TradeInfo.AmountOut tradeInfo,
                          SwapSell.MinAmountOut = minAmountOut,
                          SwapSell.Pool = TradeInfo.Pool tradeInfo,
                          Seller = Trader tradeInfo, SwapSell.Slippage = slippage\<rparr>]\<rparr>))"

definition parseGeyserMigrateInstruction ::
  "GeyserInstruction \<Rightarrow> int \<Rightarrow> Transaction \<Rightarrow> TransactionMeta option \<Rightarrow> parsed" where
  "parseGeyserMigrateInstruction instruction index result meta =
     (if length (GeyserInstruction.Accounts instruction) < 4 then
        fail ''insufficient accounts for migration'' result
      else
        let d = GeyserInstruction.Data instruction;
            acc = GeyserInstruction.Accounts instruction;
            amount = (if length d \<ge> 9 then Uint64At d 1 else 0)
        in ok (result\<lparr>Migrate := Migrate result @
                 [\<lparr>FromPool = acc ! 0, ToPool = acc ! 1, Token = acc ! 2,
                   Migration.Amount = amount, Owner = acc ! 3, Migration.Timestamp = 0\<rparr>]\<rparr>))"

text \<open>The token decoders of the Geyser format have empty bodies.\<close>

definition parseTokenTransferInstruction ::
  "GeyserInstruction \<Rightarrow> int \<Rightarrow> Transaction \<Rightarrow> TransactionMeta option \<Rightarrow> parsed" where
  "parseTokenTransferInstruction instruction index result meta = ok result"

definition parseTokenMintInstruction ::
  "GeyserInstruction \<Rightarrow> int \<Rightarrow> Transaction \<Rightarrow> TransactionMeta option \<Rightarrow> parsed" where
  "parseTokenMintInstruction instruction index result meta = ok result"

definition parseRaydiumGeyserInstruction ::
  "GeyserInstruction \<Rightarrow> int \<Rightarrow> Transaction \<Rightarrow> TransactionMeta option \<Rightarrow> parsed" where
  "parseRaydiumGeyserInstruction instruction index result meta =
     (let d = GeyserInstruction.Data instruction
      in if length d = 0 then fail ''instruction data is empty'' result
         else
           let discriminator = d ! 0
           in if discriminator = INSTRUCTION_INITIALIZE_POOL
                 \<or> discriminator = INSTRUCTION_CREATE_POOL then
                parseGeyserCreatePoolInstruction instruction index result meta
              else if discriminator = INSTRUCTION_SWAP
                      \<or> discriminator = INSTRUCTION_SWAP_BASE_IN
                      \<or> discriminator = INSTRUCTION_SWAP_BASE_OUT then
                parseGeyserSwapInstruction instruction index result meta
              else if discriminator = INSTRUCTION_BUY then
                parseGeyserBuyInstruction instruction index result meta
              else if discriminator = INSTRUCTION_SELL then
                parseGeyserSellInstruction instruction index result meta
              else if discriminator = INSTRUCTION_MIGRATE then
                parseGeyserMigrateInstruction instruction index result meta
              else ok result)"

definition parseRaydiumLaunchpadInstruction ::
  "GeyserInstruction \<Rightarrow> int \<Rightarrow> Transaction \<Rightarrow> TransactionMeta option \<Rightarrow> parsed" where
  "parseRaydiumLaunchpadInstruction instruction index result meta =
     (let d = GeyserInstruction.Data instruction
      in if length d = 0 then fail ''launchpad instruction data is empty'' result
         else
           let discriminator = d ! 0
           in if discriminator = INSTRUCTION_INITIALIZE then
                parseGeyserCreatePoolInstruction instruction index result meta
              else if discriminator = INSTRUCTION_BUY then
                parseGeyserBuyInstruction instruction index result meta
              else if discriminator = INSTRUCTION_SELL then
                parseGeyserSellInstruction instruction index result meta
              else ok result)"

definition parseRaydiumCpSwapInstruction ::
  "GeyserInstruction \<Rightarrow> int \<Rightarrow> Transaction \<Rightarrow> TransactionMeta option \<Rightarrow> parsed" where
  "parseRaydiumCpSwapInstruction instruction index result meta =
     (let d = GeyserInstruction.Data instruction
      in if length d = 0 then fail ''cp swap instruction data is empty'' result
         else
           let discriminator = d ! 0
           in if discriminator = INSTRUCTION_SWAP_BASE_IN
                 \<or> discriminator = INSTRUCTION_SWAP_BASE_OUT then
                parseGeyserSwapInstruction instruction index result meta
              else ok result)"

definition parseTokenGeyserInstruction ::
  "GeyserInstruction \<Rightarrow> int \<Rightarrow> Transaction \<Rightarrow> TransactionMeta option \<Rightarrow> parsed" where
  "parseTokenGeyserInstruction instruction index result meta =
     (let d = GeyserInstruction.Data instruction
      in if length d = 0 then ok result
         else
           let discriminator = d ! 0
           in if discriminator = TOKEN_INSTRUCTION_TRANSFER then
                parseTokenTransferInstruction instruction index result meta
              else if discriminator = TOKEN_INSTRUCTION_MINT_TO then
                parseTokenMintInstruction instruction index result meta
              else ok result)"

definition parseGeyserInstructionWrapper ::
  "GeyserInstruction \<Rightarrow> int \<Rightarrow> Transaction \<Rightarrow> TransactionMeta option \<Rightarrow> parsed" where
  "parseGeyserInstructionWrapper instruction index result meta =
     (let programID = ProgramID instruction
      in if programID = RaydiumV4ProgramID \<or> programID = RaydiumV5ProgramID then
           parseRaydiumGeyserInstruction instruction index result meta
         else if programID = RaydiumLaunchpadV1ProgramID then
           parseRaydiumLaunchpadInstruction instruction index result meta
         else if programID = RaydiumCpSwapProgramID then
           parseRaydiumCpSwapInstruction instruction index result meta
         else if programID = TokenProgramID \<or> programID = Token2022ProgramID then
           parseTokenGeyserInstruction instruction index result meta
         else ok result)"

text \<open>
  The index of an instruction is a Go \<^verbatim>\<open>int\<close>, which has 64 bits on the platforms that
  run the parser: arithmetic on it wraps around in two's complement. \<open>int64 n\<close> is the
  value that a Go \<^verbatim>\<open>int\<close> holds after a computation whose exact result is \<open>n\<close>.
\<close>

definition int64 :: "int \<Rightarrow> int" where
  "int64 n = (n + 2 ^ 63) mod 2 ^ 64 - 2 ^ 63"

text \<open>
  The loops of \<^verbatim>\<open>parseGeyserFormatTransaction\<close>. The instruction at position \<open>j\<close> of a
  list is parsed with index \<open>indexOf j\<close>: the position itself for the level-1
  instructions, and \<^verbatim>\<open>innerInstr.Index*100+j\<close>, computed in a Go \<^verbatim>\<open>int\<close>, for the
  instructions of one inner group.
\<close>

fun parseGeyserList ::
  "GeyserInstruction list \<Rightarrow> (int \<Rightarrow> int) \<Rightarrow> int \<Rightarrow> Transaction \<Rightarrow> TransactionMeta option
     \<Rightarrow> Transaction go" where
  "parseGeyserList [] indexOf j result meta = Ret result"
| "parseGeyserList (instruction # rest) indexOf j result meta =
     (case parseGeyserInstructionWrapper instruction (indexOf j) result meta of
        Panic \<Rightarrow> Panic
      | Ret (err, result1) \<Rightarrow> parseGeyserList rest indexOf (j + 1) result1 meta)"

fun parseGeyserInner ::
  "GeyserInnerInstruction list \<Rightarrow> Transaction \<Rightarrow> TransactionMeta option \<Rightarrow> Transaction go" where
  "parseGeyserInner [] result meta = Ret result"
| "parseGeyserInner (innerInstr # rest) result meta =
     (case parseGeyserList (GeyserInnerInstruction.Instructions innerInstr)
             (\<lambda>j. int64 (Index innerInstr * 100 + j)) 0 result meta of
        Panic \<Rightarrow> Panic
      | Ret result1 \<Rightarrow> parseGeyserInner rest result1 meta)"

definition parseGeyserFormatTransaction :: "GeyserTransaction \<Rightarrow> Transaction go" where
  "parseGeyserFormatTransaction geyserTx =
     (case parseGeyserList (GeyserTransaction.Instructions geyserTx) (\<lambda>i. i) 0
             (newTransaction (GeyserTransaction.Signature geyserTx)
                (GeyserTransaction.Slot geyserTx))
             (Meta geyserTx) of
        Panic \<Rightarrow> Panic
      | Ret result1 \<Rightarrow> parseGeyserInner (InnerInstructions geyserTx) result1 (Meta geyserTx))"


section \<open>Instruction data summary\<close>

text \<open>
  \<^verbatim>\<open>ExtractInstructionData\<close> of \<^verbatim>\<open>utils.go\<close>. The result map is given as the list of
  its entries in the order in which they are stored. The amount is read from
  \<^verbatim>\<open>data[1]\<close> to \<^verbatim>\<open>data[8]\<close> under the guard \<^verbatim>\<open>len(data) >= 8\<close>, so a payload of
  exactly eight bytes reads out of range.
\<close>

datatype field = FByte byte | FString string | FInt int | FUint64 uint64

definition hexdigit :: "nat \<Rightarrow> char" where
  "hexdigit n = ''0123456789abcdef'' ! n"

definition EncodeToString :: "byte list \<Rightarrow> string" where
  "EncodeToString bs = concat (map (\<lambda>b. [hexdigit (unat b div 16), hexdigit (unat b mod 16)]) bs)"

definition ExtractInstructionData :: "byte list \<Rightarrow> (string \<times> field) list go" where
  "ExtractInstructionData d =
     (if length d = 0 then Ret []
      else
        let result = [(''discriminator'', FByte (d ! 0)),
                      (''data_hex'', FString (EncodeToString d)),
                      (''data_length'', FInt (int (length d)))]
        in if length d \<ge> 8 then
             (if 8 < length d then Ret (result @ [(''potential_amount'', FUint64 (Uint64At d 1))])
              else Panic)
           else Ret result)"

section \<open>Predicates of the statements\<close>

text \<open>
  The result after one instruction, against the result before it: unchanged, or one more
  creation, or one more trade with its index and buy detail, or one more trade with its
  index and sell detail, or one more migration.
\<close>

definition one_event :: "int \<Rightarrow> Transaction \<Rightarrow> Transaction \<Rightarrow> bool" where
  "one_event index tx tx' \<longleftrightarrow>
     tx' = tx
   \<or> (\<exists>c. tx' = tx\<lparr>Create := Create tx @ [c]\<rparr>)
   \<or> (\<exists>t b. tx' = tx\<lparr>Trade := Trade tx @ [t], TradeBuys := TradeBuys tx @ [index],
                        SwapBuys := SwapBuys tx @ [b]\<rparr>)
   \<or> (\<exists>t s. tx' = tx\<lparr>Trade := Trade tx @ [t], TradeSells := TradeSells tx @ [index],
                        SwapSells := SwapSells tx @ [s]\<rparr>)
   \<or> (\<exists>m. tx' = tx\<lparr>Migrate := Migrate tx @ [m]\<rparr>)"

text \<open>
  What a decoder may do to the result: a return without error changes it by at most one
  event, a return with an error leaves it as it was.
\<close>

definition effect_ok :: "int \<Rightarrow> Transaction \<Rightarrow> parsed \<Rightarrow> bool" where
  "effect_ok index tx r \<longleftrightarrow>
     (case r of Panic \<Rightarrow> True
      | Ret (None, tx') \<Rightarrow> one_event index tx tx'
      | Ret (Some e, tx') \<Rightarrow> tx' = tx)"

text \<open>A call returns when it does not panic.\<close>

definition returns :: "parsed \<Rightarrow> bool" where
  "returns r \<longleftrightarrow> r \<noteq> Panic"

text \<open>The two index sequences are as long as the two sequences of details.\<close>

definition counts_agree :: "Transaction \<Rightarrow> bool" where
  "counts_agree tx \<longleftrightarrow>
     length (TradeBuys tx) = length (SwapBuys tx)
   \<and> length (TradeSells tx) = length (SwapSells tx)"

section \<open>Example inputs\<close>

text \<open>
  A message of six account keys (a wallet, the Raydium V4 program, the wrapped-SOL mint,
  a token mint, a pool, the launchpad program) and instructions over it.
\<close>

definition demo_keys :: "PublicKey list" where
  "demo_keys = [''7xKXtg2CW87d97TXJSDpbD5jBkheTqA83TZRuJosgAsU'',
                ''675kPX9MHTjS2zt1qfr1NYHuzeLXfQM9H24wFSUt1Mp8'',
                ''So11111111111111111111111111111111111111112'',
                ''8pf71rxkus6HVhNa9ERdJ571wfPa1a8QKKMsxGkDbonk'',
                ''58oQChx4yWmvKdwLLZzBi4ChoCc2fqCUWBkwMihLYQo2'',
                ''LanMV9sAd7wArD4vJFi2qDdfnVhFxYSUg6eADduJ3uj'']"

definition demo_message :: Message where
  "demo_message = \<lparr>AccountKeys = demo_keys\<rparr>"

definition demo_tx :: Transaction where
  "demo_tx = newTransaction ''sig'' 353025037"

text \<open>An instruction of each format with too few accounts for any kind.\<close>

definition short_create :: CompiledInstruction where
  "short_create = \<lparr>ProgramIDIndex = 1, CompiledInstruction.Accounts = [3, 4, 0],
                    CompiledInstruction.Data = [9]\<rparr>"

definition short_geyser :: GeyserInstruction where
  "short_geyser = \<lparr>ProgramID = ''675kPX9MHTjS2zt1qfr1NYHuzeLXfQM9H24wFSUt1Mp8'',
                    GeyserInstruction.Accounts = [''8pf71rxkus6HVhNa9ERdJ571wfPa1a8QKKMsxGkDbonk''],
                    GeyserInstruction.Data = [9]\<rparr>"

text \<open>
  Creation instructions (first byte 9) with fewer than eight accounts and a payload of
  eight bytes or more: five accounts and ten bytes, the last byte being the decimals, in
  each format; seven accounts and seventeen bytes.
\<close>

definition under_create :: CompiledInstruction where
  "under_create = \<lparr>ProgramIDIndex = 1, CompiledInstruction.Accounts = [3, 4, 0, 2, 2],
                    CompiledInstruction.Data = [9, 0, 0, 0, 0, 0, 0, 0, 0, 6]\<rparr>"

definition under_create_geyser :: GeyserInstruction where
  "under_create_geyser = \<lparr>ProgramID = ''675kPX9MHTjS2zt1qfr1NYHuzeLXfQM9H24wFSUt1Mp8'',
                    GeyserInstruction.Accounts =
                      [''8pf71rxkus6HVhNa9ERdJ571wfPa1a8QKKMsxGkDbonk'',
                       ''58oQChx4yWmvKdwLLZzBi4ChoCc2fqCUWBkwMihLYQo2'',
                       ''7xKXtg2CW87d97TXJSDpbD5jBkheTqA83TZRuJosgAsU'',
                       ''So11111111111111111111111111111111111111112'',
                       ''So11111111111111111111111111111111111111112''],
                    GeyserInstruction.Data = [9, 0, 0, 0, 0, 0, 0, 0, 0, 6]\<rparr>"

definition under_create7 :: CompiledInstruction where
  "under_create7 = \<lparr>ProgramIDIndex = 1,
                     CompiledInstruction.Accounts = [3, 4, 0, 2, 2, 0, 0],
                     CompiledInstruction.Data =
                       [9, 0, 0, 0, 0, 0, 0, 0, 0, 6, 0, 0, 0, 0, 0, 0, 0]\<rparr>"

text \<open>
  The 17-byte swap payload: discriminator 1, input amount 1000000000 and minimum output
  950000000, both little-endian. It is what the swap builder of \<^verbatim>\<open>instructions.go\<close>
  writes for these amounts.
\<close>

definition swap17_data :: "byte list" where
  "swap17_data = [1, 0, 202, 154, 59, 0, 0, 0, 0, 128, 217, 159, 56, 0, 0, 0, 0]"

definition swap17 :: CompiledInstruction where
  "swap17 = \<lparr>ProgramIDIndex = 1, CompiledInstruction.Accounts = [2, 3, 4, 0, 0, 0],
              CompiledInstruction.Data = swap17_data\<rparr>"

text \<open>A creation instruction whose third account index is beyond the six keys.\<close>

definition oob_create :: CompiledInstruction where
  "oob_create = \<lparr>ProgramIDIndex = 1, CompiledInstruction.Accounts = [3, 4, 200, 0, 0, 0, 0, 0],
              CompiledInstruction.Data = [9]\<rparr>"

text \<open>
  An unknown 8-byte discriminator followed by sixteen zero bytes: trade-shaped with six
  accounts, amount zero.
\<close>

definition zero_amount_data :: "byte list" where
  "zero_amount_data = [200, 0, 0, 0, 0, 0, 0, 0,  0, 0, 0, 0, 0, 0, 0, 0,  0, 0, 0, 0, 0, 0, 0, 0]"

definition zero_amount_launchpad :: CompiledInstruction where
  "zero_amount_launchpad = \<lparr>ProgramIDIndex = 5, CompiledInstruction.Accounts = [2, 3, 4, 0, 0, 0],
              CompiledInstruction.Data = zero_amount_data\<rparr>"

definition zero_amount_raydium :: CompiledInstruction where
  "zero_amount_raydium = \<lparr>ProgramIDIndex = 1, CompiledInstruction.Accounts = [2, 3, 4, 0, 0, 0],
              CompiledInstruction.Data = zero_amount_data\<rparr>"

text \<open>
  A launchpad instruction whose payload is the complex buy discriminator
  \<^verbatim>\<open>0x66063d1201daebea\<close>, and one of unknown discriminator that the fallback decodes.
\<close>

definition exact_buy :: CompiledInstruction where
  "exact_buy = \<lparr>ProgramIDIndex = 5, CompiledInstruction.Accounts = [2, 3, 4, 0, 0, 0],
              CompiledInstruction.Data = [0xea, 0xeb, 0xda, 0x01, 0x12, 0x3d, 0x06, 0x66]\<rparr>"

definition heuristic_buy :: CompiledInstruction where
  "heuristic_buy = \<lparr>ProgramIDIndex = 5, CompiledInstruction.Accounts = [2, 3, 4, 0, 0, 0],
              CompiledInstruction.Data = [200, 0, 0, 0, 0, 0, 0, 0,  0, 1, 0, 0, 0, 0, 0, 0,  0, 0, 0, 0, 0, 0, 0, 0]\<rparr>"

text \<open>The records that the examples are decoded into.\<close>

definition demo_trade :: "int \<Rightarrow> uint64 \<Rightarrow> string \<Rightarrow> TradeInfo" where
  "demo_trade idx amountIn ty =
     \<lparr>InstructionIndex = idx,
      TradeInfo.TokenIn = ''So11111111111111111111111111111111111111112'',
      TradeInfo.TokenOut = ''8pf71rxkus6HVhNa9ERdJ571wfPa1a8QKKMsxGkDbonk'',
      TradeInfo.AmountIn = amountIn, TradeInfo.AmountOut = 0,
      Trader = ''7xKXtg2CW87d97TXJSDpbD5jBkheTqA83TZRuJosgAsU'',
      TradeInfo.Pool = ''58oQChx4yWmvKdwLLZzBi4ChoCc2fqCUWBkwMihLYQo2'',
      TradeType = ty\<rparr>"

definition demo_buy :: "uint64 \<Rightarrow> uint64 \<Rightarrow> SwapBuy" where
  "demo_buy amountIn minAmountOut =
     \<lparr>SwapBuy.TokenIn = ''So11111111111111111111111111111111111111112'',
      SwapBuy.TokenOut = ''8pf71rxkus6HVhNa9ERdJ571wfPa1a8QKKMsxGkDbonk'',
      SwapBuy.AmountIn = amountIn, SwapBuy.AmountOut = 0,
      SwapBuy.MinAmountOut = minAmountOut,
      SwapBuy.Pool = ''58oQChx4yWmvKdwLLZzBi4ChoCc2fqCUWBkwMihLYQo2'',
      Buyer = ''7xKXtg2CW87d97TXJSDpbD5jBkheTqA83TZRuJosgAsU'',
      SwapBuy.Slippage = 0\<rparr>"

definition demo_bought :: "TradeInfo \<Rightarrow> SwapBuy \<Rightarrow> Transaction" where
  "demo_bought t b = demo_tx\<lparr>Trade := [t], TradeBuys := [0], SwapBuys := [b]\<rparr>"

text \<open>
  A buy payload of 17 bytes (amount 1000000000, maximum input 1100000000) whose first
  account is the wallet, and a sell instruction of one byte.
\<close>

definition buy17 :: CompiledInstruction where
  "buy17 = \<lparr>ProgramIDIndex = 5, CompiledInstruction.Accounts = [0, 3, 4, 0, 0, 0],
             CompiledInstruction.Data =
               [6, 0, 202, 154, 59, 0, 0, 0, 0, 0, 171, 144, 65, 0, 0, 0, 0]\<rparr>"

definition sell1 :: CompiledInstruction where
  "sell1 = \<lparr>ProgramIDIndex = 5, CompiledInstruction.Accounts = [3, 2, 4, 0, 0, 0],
             CompiledInstruction.Data = [7]\<rparr>"

definition demo_parsed :: Transaction where
  "demo_parsed =
     demo_tx\<lparr>Trade := [demo_trade 0 243200000000 ''swap'',
                        \<lparr>InstructionIndex = 2,
                          TradeInfo.TokenIn = ''8pf71rxkus6HVhNa9ERdJ571wfPa1a8QKKMsxGkDbonk'',
                          TradeInfo.TokenOut = ''So11111111111111111111111111111111111111112'',
                          TradeInfo.AmountIn = 0, TradeInfo.AmountOut = 0,
                          Trader = ''7xKXtg2CW87d97TXJSDpbD5jBkheTqA83TZRuJosgAsU'',
                          TradeInfo.Pool = ''58oQChx4yWmvKdwLLZzBi4ChoCc2fqCUWBkwMihLYQo2'',
                          TradeType = ''sell''\<rparr>],
             TradeBuys := [0],
             TradeSells := [2],
             SwapBuys := [demo_buy 243200000000 0],
             SwapSells := [\<lparr>SwapSell.TokenIn = ''8pf71rxkus6HVhNa9ERdJ571wfPa1a8QKKMsxGkDbonk'',
                            SwapSell.TokenOut = ''So11111111111111111111111111111111111111112'',
                            SwapSell.AmountIn = 0, SwapSell.AmountOut = 0,
                            SwapSell.MinAmountOut = 0,
                            SwapSell.Pool = ''58oQChx4yWmvKdwLLZzBi4ChoCc2fqCUWBkwMihLYQo2'',
                            Seller = ''7xKXtg2CW87d97TXJSDpbD5jBkheTqA83TZRuJosgAsU'',
                            SwapSell.Slippage = 0\<rparr>]\<rparr>"

section \<open>The effect of one instruction\<close>

lemma one_event_refl: "one_event i tx tx" by (simp add: one_event_def)
lemma one_event_create: "one_event i tx (tx\<lparr>Create := Create tx @ [c]\<rparr>)" by (auto simp add: one_event_def)
lemma one_event_buy: "one_event i tx (tx\<lparr>Trade := Trade tx @ [t], TradeBuys := TradeBuys tx @ [i],
                        SwapBuys := SwapBuys tx @ [b]\<rparr>)" 
  unfolding one_event_def by blast
lemma one_event_sell: "one_event i tx (tx\<lparr>Trade := Trade tx @ [t], TradeSells := TradeSells tx @ [i],
                        SwapSells := SwapSells tx @ [b]\<rparr>)" 
  unfolding one_event_def by blast
lemma one_event_migrate: "one_event i tx (tx\<lparr>Migrate := Migrate tx @ [c]\<rparr>)" unfolding one_event_def by blast

lemmas one_event_intros = one_event_refl one_event_create one_event_buy one_event_sell one_event_migrate

lemma step_ok: "one_event i tx tx' \<Longrightarrow> effect_ok i tx (ok tx')" by (simp add: effect_ok_def ok_def)
lemma step_fail: "effect_ok i tx (fail msg tx)" by (simp add: effect_ok_def fail_def)
lemma step_panic: "effect_ok i tx Panic" by (simp add: effect_ok_def)

lemma step_create: "effect_ok i tx (parseCreatePoolInstruction ins m i tx)"
  unfolding parseCreatePoolInstruction_def Let_def
  by (auto split: go.splits intro!: step_ok step_fail step_panic one_event_intros)

lemma step_swap: "effect_ok i tx (parseSwapInstruction ins m i tx)"
  unfolding parseSwapInstruction_def Let_def
  by (auto split: go.splits simp: step_fail step_panic intro!: step_ok one_event_intros)

lemma step_buy: "effect_ok i tx (parseBuyInstructionStandard ins m i tx)"
  unfolding parseBuyInstructionStandard_def Let_def
  by (auto split: go.splits simp: step_fail step_panic intro!: step_ok one_event_intros)

lemma step_sell: "effect_ok i tx (parseSellInstructionStandard ins m i tx)"
  unfolding parseSellInstructionStandard_def Let_def
  by (auto split: go.splits simp: step_fail step_panic intro!: step_ok one_event_intros)

lemma step_migrate: "effect_ok i tx (parseMigrateInstruction ins m i tx)"
  unfolding parseMigrateInstruction_def Let_def
  by (auto split: go.splits simp: step_fail step_panic intro!: step_ok one_event_intros)

lemma step_asswap: "effect_ok i tx (parseAsSwapInstruction ins m i tx)"
  unfolding parseAsSwapInstruction_def Let_def
  by (auto split: go.splits simp: step_fail step_panic intro!: step_ok one_event_intros)

lemma step_noop: "effect_ok i tx (ok tx)" by (simp add: step_ok one_event_refl)

lemmas step_leaf = step_create step_swap step_buy step_sell step_migrate step_asswap step_noop step_fail step_panic

lemma buy_no_error:
  "length (CompiledInstruction.Accounts ins) \<ge> 6 \<Longrightarrow>
   parseBuyInstructionStandard ins m i tx \<noteq> Ret (Some e, tx')"
  unfolding parseBuyInstructionStandard_def Let_def ok_def
  by (auto split: go.splits)

lemma step_generic_launchpad: "effect_ok i tx (parseGenericLaunchpadInstruction ins m i tx d)"
proof -
  have buy: "effect_ok i tx (parseBuyInstructionStandard ins m i tx)" by (rule step_buy)
  have "effect_ok i tx
          (case parseBuyInstructionStandard ins m i tx of
             Panic \<Rightarrow> Panic
           | Ret (None, result1) \<Rightarrow> ok result1
           | Ret (Some err, result1) \<Rightarrow> parseSellInstructionStandard ins m i result1)"
    using buy step_sell [of i tx ins m]
    by (auto simp: effect_ok_def ok_def split: go.splits option.splits)
  then show ?thesis
    unfolding parseGenericLaunchpadInstruction_def Let_def
    by (simp add: step_leaf)
qed

lemma step_generic_raydium: "effect_ok i tx (parseGenericRaydiumInstruction ins m i tx d)"
  unfolding parseGenericRaydiumInstruction_def parseAsCreateOrMigrateInstruction_def
  by (simp add: step_leaf)

lemma step_complex_raydium: "effect_ok i tx (parseComplexRaydiumInstruction ins m i tx d)"
  unfolding parseComplexRaydiumInstruction_def
  by (simp add: step_leaf step_generic_raydium)

lemma step_raydium: "effect_ok i tx (parseRaydiumInstruction ins m i tx)"
  unfolding parseRaydiumInstruction_def Let_def parseDepositInstruction_def
    parseWithdrawInstruction_def
  by (simp add: step_leaf step_complex_raydium)

lemma step_complex_launchpad: "effect_ok i tx (parseComplexLaunchpadInstruction ins m i tx d)"
  unfolding parseComplexLaunchpadInstruction_def
  by (simp add: step_leaf step_generic_launchpad)

lemma step_launchpad: "effect_ok i tx (parseRaydiumLaunchpadInstructionStandard ins m i tx)"
  unfolding parseRaydiumLaunchpadInstructionStandard_def Let_def
  by (simp add: step_leaf step_complex_launchpad step_generic_launchpad)

lemma step_token: "effect_ok i tx (parseTokenInstruction ins m i tx)"
  unfolding parseTokenInstruction_def Let_def parseTokenTransferInstructionStandard_def
    parseTokenMintInstructionStandard_def
  by (simp add: step_leaf)

lemma step_parseInstruction: "effect_ok i tx (parseInstruction ins m i tx)"
proof (cases "unat (ProgramIDIndex ins) \<ge> length (AccountKeys m)")
  case True
  then show ?thesis by (simp add: parseInstruction_def effect_ok_def)
next
  case False
  then show ?thesis
    unfolding parseInstruction_def Let_def parseStakingInstruction_def
      parseLiquidityInstruction_def
    by (simp add: step_leaf step_raydium step_launchpad step_token)
qed

lemma step_geyser_create: "effect_ok i tx (parseGeyserCreatePoolInstruction ins i tx meta)"
  unfolding parseGeyserCreatePoolInstruction_def Let_def
  by (auto simp: step_fail intro!: step_ok one_event_intros)

lemma step_geyser_swap: "effect_ok i tx (parseGeyserSwapInstruction ins i tx meta)"
  unfolding parseGeyserSwapInstruction_def Let_def
  by (auto simp: step_fail intro!: step_ok one_event_intros)

lemma step_geyser_buy: "effect_ok i tx (parseGeyserBuyInstruction ins i tx meta)"
  unfolding parseGeyserBuyInstruction_def Let_def
  by (auto simp: step_fail intro!: step_ok one_event_intros)

lemma step_geyser_sell: "effect_ok i tx (parseGeyserSellInstruction ins i tx meta)"
  unfolding parseGeyserSellInstruction_def Let_def
  by (auto simp: step_fail intro!: step_ok one_event_intros)

lemma step_geyser_migrate: "effect_ok i tx (parseGeyserMigrateInstruction ins i tx meta)"
  unfolding parseGeyserMigrateInstruction_def Let_def
  by (auto simp: step_fail intro!: step_ok one_event_intros)

lemmas step_geyser_leaf = step_geyser_create step_geyser_swap step_geyser_buy step_geyser_sell
  step_geyser_migrate step_noop step_fail

lemma step_geyser_raydium: "effect_ok i tx (parseRaydiumGeyserInstruction ins i tx meta)"
  unfolding parseRaydiumGeyserInstruction_def Let_def
  by (simp add: step_geyser_leaf)

lemma step_geyser_launchpad: "effect_ok i tx (parseRaydiumLaunchpadInstruction ins i tx meta)"
  unfolding parseRaydiumLaunchpadInstruction_def Let_def
  by (simp add: step_geyser_leaf)

lemma step_geyser_cpswap: "effect_ok i tx (parseRaydiumCpSwapInstruction ins i tx meta)"
  unfolding parseRaydiumCpSwapInstruction_def Let_def
  by (simp add: step_geyser_leaf)

lemma step_geyser_token: "effect_ok i tx (parseTokenGeyserInstruction ins i tx meta)"
  unfolding parseTokenGeyserInstruction_def parseTokenTransferInstruction_def
    parseTokenMintInstruction_def Let_def
  by (simp add: step_geyser_leaf)

lemma step_geyser_wrapper: "effect_ok i tx (parseGeyserInstructionWrapper ins i tx meta)"
  unfolding parseGeyserInstructionWrapper_def Let_def
  by (simp add: step_geyser_raydium step_geyser_launchpad step_geyser_cpswap step_geyser_token step_noop)

lemma returns_ok: "returns (ok tx)" by (simp add: returns_def ok_def)
lemma returns_fail: "returns (fail msg tx)" by (simp add: returns_def fail_def)

lemma geyser_create_returns: "returns (parseGeyserCreatePoolInstruction ins i tx meta)"
  by (simp add: parseGeyserCreatePoolInstruction_def Let_def returns_ok returns_fail)

lemma geyser_swap_returns: "returns (parseGeyserSwapInstruction ins i tx meta)"
  by (simp add: parseGeyserSwapInstruction_def Let_def returns_ok returns_fail)

lemma geyser_buy_returns: "returns (parseGeyserBuyInstruction ins i tx meta)"
  by (simp add: parseGeyserBuyInstruction_def Let_def returns_ok returns_fail)

lemma geyser_sell_returns: "returns (parseGeyserSellInstruction ins i tx meta)"
  by (simp add: parseGeyserSellInstruction_def Let_def returns_ok returns_fail)

lemma geyser_migrate_returns: "returns (parseGeyserMigrateInstruction ins i tx meta)"
  by (simp add: parseGeyserMigrateInstruction_def Let_def returns_ok returns_fail)

lemmas geyser_returns = geyser_create_returns geyser_swap_returns geyser_buy_returns
  geyser_sell_returns geyser_migrate_returns returns_ok returns_fail

lemma geyser_raydium_returns: "returns (parseRaydiumGeyserInstruction ins i tx meta)"
  unfolding parseRaydiumGeyserInstruction_def Let_def
  by (simp add: geyser_returns)

lemma geyser_launchpad_returns: "returns (parseRaydiumLaunchpadInstruction ins i tx meta)"
  unfolding parseRaydiumLaunchpadInstruction_def Let_def
  by (simp add: geyser_returns)

lemma geyser_cpswap_returns: "returns (parseRaydiumCpSwapInstruction ins i tx meta)"
  unfolding parseRaydiumCpSwapInstruction_def Let_def
  by (simp add: geyser_returns)

lemma geyser_token_returns: "returns (parseTokenGeyserInstruction ins i tx meta)"
  unfolding parseTokenGeyserInstruction_def parseTokenTransferInstruction_def
    parseTokenMintInstruction_def Let_def
  by (simp add: geyser_returns)

text \<open>The Geyser decoders index nothing but checked positions: they never panic.\<close>

lemma geyser_wrapper_returns: "parseGeyserInstructionWrapper ins i tx meta \<noteq> Panic"
proof -
  have "returns (parseGeyserInstructionWrapper ins i tx meta)"
    unfolding parseGeyserInstructionWrapper_def Let_def
    by (simp add: geyser_raydium_returns geyser_launchpad_returns geyser_cpswap_returns
        geyser_token_returns returns_ok)
  then show ?thesis by (simp add: returns_def)
qed

section \<open>The index sequences\<close>

text \<open>
  \<open>int64\<close> leaves the values of the 64-bit range as they are and wraps the others around.
\<close>

lemma int64_in_range: "- (2 ^ 63) \<le> n \<Longrightarrow> n < 2 ^ 63 \<Longrightarrow> int64 n = n"
  by (simp add: int64_def)

lemma int64_wraps: "int64 (92233720368547759 * 100 + 0) = - 9223372036854775716"
  by (simp add: int64_def)

lemma one_event_counts: "one_event i tx tx' \<Longrightarrow> counts_agree tx \<Longrightarrow> counts_agree tx'"
  by (auto simp: one_event_def counts_agree_def)

lemma step_ok_counts:
  "effect_ok i tx (Ret (e, tx')) \<Longrightarrow> counts_agree tx \<Longrightarrow> counts_agree tx'"
  by (cases e) (auto simp: effect_ok_def dest: one_event_counts)

lemma parseInstructions_counts:
  "parseInstructions is m i tx = Ret tx' \<Longrightarrow> counts_agree tx \<Longrightarrow> counts_agree tx'"
proof (induction "is" arbitrary: i tx)
  case Nil
  then show ?case by simp
next
  case (Cons x xs)
  from Cons.prems(1) obtain e tx1 where
    step: "parseInstruction x m i tx = Ret (e, tx1)" and
    rest: "parseInstructions xs m (i + 1) tx1 = Ret tx'"
    by (auto split: go.splits)
  have "effect_ok i tx (Ret (e, tx1))"
    using step_parseInstruction [of i tx x m] step by simp
  then have "counts_agree tx1"
    using Cons.prems(2) by (rule step_ok_counts)
  with rest show ?case by (rule Cons.IH)
qed

lemma parseGeyserList_counts:
  "parseGeyserList is f j tx meta = Ret tx' \<Longrightarrow> counts_agree tx \<Longrightarrow> counts_agree tx'"
proof (induction "is" arbitrary: j tx)
  case Nil
  then show ?case by simp
next
  case (Cons x xs)
  from Cons.prems(1) obtain e tx1 where
    step: "parseGeyserInstructionWrapper x (f j) tx meta = Ret (e, tx1)" and
    rest: "parseGeyserList xs f (j + 1) tx1 meta = Ret tx'"
    by (auto split: go.splits)
  have "effect_ok (f j) tx (Ret (e, tx1))"
    using step_geyser_wrapper [of "f j" tx x meta] step by simp
  then have "counts_agree tx1"
    using Cons.prems(2) by (rule step_ok_counts)
  with rest show ?case by (rule Cons.IH)
qed

lemma parseGeyserInner_counts:
  "parseGeyserInner gs tx meta = Ret tx' \<Longrightarrow> counts_agree tx \<Longrightarrow> counts_agree tx'"
proof (induction gs arbitrary: tx)
  case Nil
  then show ?case by simp
next
  case (Cons g gs)
  from Cons.prems(1) obtain tx1 where
    grp: "parseGeyserList (GeyserInnerInstruction.Instructions g)
            (\<lambda>j. int64 (Index g * 100 + j)) 0 tx meta = Ret tx1" and
    rest: "parseGeyserInner gs tx1 meta = Ret tx'"
    by (auto split: go.splits)
  from grp Cons.prems(2) have "counts_agree tx1" by (rule parseGeyserList_counts)
  with rest show ?case by (rule Cons.IH)
qed

lemma parseGeyserList_returns: "\<exists>tx'. parseGeyserList is f j tx meta = Ret tx'"
proof (induction "is" arbitrary: j tx)
  case Nil
  then show ?case by simp
next
  case (Cons x xs)
  obtain e tx1 where "parseGeyserInstructionWrapper x (f j) tx meta = Ret (e, tx1)"
    using geyser_wrapper_returns [of x "f j" tx meta]
    by (cases "parseGeyserInstructionWrapper x (f j) tx meta") auto
  then show ?case using Cons.IH [of "j + 1" tx1] by simp
qed

lemma parseGeyserInner_returns: "\<exists>tx'. parseGeyserInner gs tx meta = Ret tx'"
proof (induction gs arbitrary: tx)
  case Nil
  then show ?case by simp
next
  case (Cons g gs)
  obtain tx1 where
    "parseGeyserList (GeyserInnerInstruction.Instructions g)
       (\<lambda>j. int64 (Index g * 100 + j)) 0 tx meta = Ret tx1"
    using parseGeyserList_returns by blast
  then show ?case using Cons.IH [of tx1] by simp
qed

lemma counts_agree_new: "counts_agree (newTransaction sig slot)"
  by (simp add: counts_agree_def newTransaction_def)

text \<open>
  Claim C1. In every transaction that the engine returns, \<^verbatim>\<open>TradeBuys\<close> is as long as
  \<^verbatim>\<open>SwapBuys\<close> and \<^verbatim>\<open>TradeSells\<close> is as long as \<^verbatim>\<open>SwapSells\<close>. This holds for
  the standard format, whenever decoding returns, and for the Geyser format, where
  decoding always returns.
\<close>

theorem C1_index_counts:
  "(parseStandardTransactionWithSignature instructions message slot sig = Ret tx \<longrightarrow>
      length (TradeBuys tx) = length (SwapBuys tx)
    \<and> length (TradeSells tx) = length (SwapSells tx))
 \<and> (\<exists>gtx. parseGeyserFormatTransaction geyserTx = Ret gtx
      \<and> length (TradeBuys gtx) = length (SwapBuys gtx)
      \<and> length (TradeSells gtx) = length (SwapSells gtx))"
proof
  show "parseStandardTransactionWithSignature instructions message slot sig = Ret tx \<longrightarrow>
      length (TradeBuys tx) = length (SwapBuys tx)
    \<and> length (TradeSells tx) = length (SwapSells tx)"
    using parseInstructions_counts [OF _ counts_agree_new]
    by (auto simp: parseStandardTransactionWithSignature_def counts_agree_def)
next
  let ?t0 = "newTransaction (GeyserTransaction.Signature geyserTx) (GeyserTransaction.Slot geyserTx)"
  obtain tx1 where l1: "parseGeyserList (GeyserTransaction.Instructions geyserTx) (\<lambda>i. i) 0 ?t0
      (Meta geyserTx) = Ret tx1"
    using parseGeyserList_returns by blast
  obtain tx2 where l2: "parseGeyserInner (InnerInstructions geyserTx) tx1 (Meta geyserTx) = Ret tx2"
    using parseGeyserInner_returns by blast
  have "counts_agree tx1" using l1 counts_agree_new by (rule parseGeyserList_counts)
  with l2 have "counts_agree tx2" by (rule parseGeyserInner_counts)
  moreover have "parseGeyserFormatTransaction geyserTx = Ret tx2"
    using l1 l2 by (simp add: parseGeyserFormatTransaction_def)
  ultimately show "\<exists>gtx. parseGeyserFormatTransaction geyserTx = Ret gtx
      \<and> length (TradeBuys gtx) = length (SwapBuys gtx)
      \<and> length (TradeSells gtx) = length (SwapSells gtx)"
    by (auto simp: counts_agree_def)
qed

theorem C1_index_counts_witness:
  "parseStandardTransactionWithSignature [swap17, short_create, sell1] demo_message
       353025037 ''sig'' = Ret demo_parsed
 \<and> length (TradeBuys demo_parsed) = length (SwapBuys demo_parsed)
 \<and> length (TradeSells demo_parsed) = length (SwapSells demo_parsed)
 \<and> length (TradeBuys demo_parsed) = 1 \<and> length (TradeSells demo_parsed) = 1"
proof -
  have run: "parseStandardTransactionWithSignature [swap17, short_create, sell1] demo_message
       353025037 ''sig'' = Ret demo_parsed"
    by code_simp
  have cnt: "length (TradeBuys demo_parsed) = length (SwapBuys demo_parsed)
      \<and> length (TradeSells demo_parsed) = length (SwapSells demo_parsed)"
    using C1_index_counts [of "[swap17, short_create, sell1]" demo_message 353025037 "''sig''"
        demo_parsed] run
    by blast
  have one: "length (TradeBuys demo_parsed) = 1 \<and> length (TradeSells demo_parsed) = 1"
    by (simp add: demo_parsed_def)
  from run cnt one show ?thesis by blast
qed

section \<open>At most one event for an instruction\<close>

lemma swap17_by_engine:
  "parseInstruction swap17 demo_message 0 demo_tx
     = Ret (None, demo_bought (demo_trade 0 243200000000 ''swap'') (demo_buy 243200000000 0))"
  by code_simp

lemma swap17_by_decoder:
  "parseSwapInstruction swap17 demo_message 0 demo_tx
     = Ret (None, demo_bought (demo_trade 0 1000000000 ''swap'') (demo_buy 1000000000 950000000))"
  by code_simp

text \<open>
  Claim C2. One instruction, in either format, leaves the result unchanged, or appends
  one creation, or one trade with its index and one buy detail, or one trade with its
  index and one sell detail, or one migration; never more than one of these.
\<close>

theorem C2_at_most_one_event:
  assumes "r = parseInstruction instruction message index tx
         \<or> r = parseGeyserInstructionWrapper ginstruction index tx meta"
    and "r = Ret (err, tx')"
  shows "tx' = tx
       \<or> (\<exists>c. tx' = tx\<lparr>Create := Create tx @ [c]\<rparr>)
       \<or> (\<exists>t b. tx' = tx\<lparr>Trade := Trade tx @ [t], TradeBuys := TradeBuys tx @ [index],
                            SwapBuys := SwapBuys tx @ [b]\<rparr>)
       \<or> (\<exists>t s. tx' = tx\<lparr>Trade := Trade tx @ [t], TradeSells := TradeSells tx @ [index],
                            SwapSells := SwapSells tx @ [s]\<rparr>)
       \<or> (\<exists>m. tx' = tx\<lparr>Migrate := Migrate tx @ [m]\<rparr>)"
proof -
  have "effect_ok index tx r"
    using assms(1) step_parseInstruction step_geyser_wrapper by blast
  then have "one_event index tx tx'"
    using assms(2) by (cases err) (auto simp: effect_ok_def one_event_refl)
  then show ?thesis by (simp add: one_event_def)
qed

theorem C2_at_most_one_event_witness:
  "parseInstruction swap17 demo_message 0 demo_tx
     = Ret (None, demo_bought (demo_trade 0 243200000000 ''swap'') (demo_buy 243200000000 0))
 \<and> (\<exists>t b. demo_bought (demo_trade 0 243200000000 ''swap'') (demo_buy 243200000000 0)
         = demo_tx\<lparr>Trade := Trade demo_tx @ [t], TradeBuys := TradeBuys demo_tx @ [0],
                    SwapBuys := SwapBuys demo_tx @ [b]\<rparr>)"
proof -
  let ?tx' = "demo_bought (demo_trade 0 243200000000 ''swap'') (demo_buy 243200000000 0)"
  have run: "parseInstruction swap17 demo_message 0 demo_tx = Ret (None, ?tx')"
    by (rule swap17_by_engine)
  have shape: "?tx' = demo_tx
       \<or> (\<exists>c. ?tx' = demo_tx\<lparr>Create := Create demo_tx @ [c]\<rparr>)
       \<or> (\<exists>t b. ?tx' = demo_tx\<lparr>Trade := Trade demo_tx @ [t], TradeBuys := TradeBuys demo_tx @ [0],
                            SwapBuys := SwapBuys demo_tx @ [b]\<rparr>)
       \<or> (\<exists>t s. ?tx' = demo_tx\<lparr>Trade := Trade demo_tx @ [t], TradeSells := TradeSells demo_tx @ [0],
                            SwapSells := SwapSells demo_tx @ [s]\<rparr>)
       \<or> (\<exists>m. ?tx' = demo_tx\<lparr>Migrate := Migrate demo_tx @ [m]\<rparr>)"
    by (rule C2_at_most_one_event [OF disjI1 [OF refl] run])
  have "?tx' \<noteq> demo_tx" "\<And>c. ?tx' \<noteq> demo_tx\<lparr>Create := Create demo_tx @ [c]\<rparr>"
    "\<And>t s. ?tx' \<noteq> demo_tx\<lparr>Trade := Trade demo_tx @ [t], TradeSells := TradeSells demo_tx @ [0],
                            SwapSells := SwapSells demo_tx @ [s]\<rparr>"
    "\<And>m. ?tx' \<noteq> demo_tx\<lparr>Migrate := Migrate demo_tx @ [m]\<rparr>"
    by (simp_all add: demo_bought_def demo_tx_def newTransaction_def)
  with shape run show ?thesis by blast
qed

section \<open>Discriminator resolution on long payloads\<close>

text \<open>
  Claim C3 at the 17-byte swap payload that the repository's own swap builder produces:
  its first byte is the simple swap discriminator, its first eight bytes are in no
  complex table, and yet the resolver hands it to the complex path, which ends in the
  fallback decoder; the swap decoder would have read the amounts of the payload.
\<close>

theorem C3_simple_discriminator_shadowed:
  "length (CompiledInstruction.Data swap17) \<ge> 8
 \<and> CompiledInstruction.Data swap17 ! 0 = INSTRUCTION_SWAP
 \<and> Uint64At (CompiledInstruction.Data swap17) 0 = 256000000001
 \<and> Uint64At (CompiledInstruction.Data swap17) 0 \<notin>
       {COMPLEX_INITIALIZE, COMPLEX_SWAP, COMPLEX_BUY, COMPLEX_SELL,
        COMPLEX_UNKNOWN_1, COMPLEX_UNKNOWN_2}
 \<and> parseRaydiumInstruction swap17 demo_message 0 demo_tx
     = parseGenericRaydiumInstruction swap17 demo_message 0 demo_tx 256000000001
 \<and> parseRaydiumInstruction swap17 demo_message 0 demo_tx
     = Ret (None, demo_bought (demo_trade 0 243200000000 ''swap'') (demo_buy 243200000000 0))
 \<and> parseSwapInstruction swap17 demo_message 0 demo_tx
     = Ret (None, demo_bought (demo_trade 0 1000000000 ''swap'') (demo_buy 1000000000 950000000))"
  by code_simp

text \<open>
  The resolver as the code has it, for any payload: with eight bytes or more, the simple
  table is consulted only when the first eight bytes are all zero.
\<close>

lemma resolver_complex_whenever_nonzero:
  "length (CompiledInstruction.Data instruction) \<ge> 8 \<Longrightarrow>
   Uint64At (CompiledInstruction.Data instruction) 0 \<noteq> 0 \<Longrightarrow>
   parseRaydiumInstruction instruction message index tx
     = parseComplexRaydiumInstruction instruction message index tx
         (Uint64At (CompiledInstruction.Data instruction) 0)"
  by (auto simp: parseRaydiumInstruction_def Let_def)

lemma resolver_unlisted_goes_to_fallback:
  "d \<notin> {COMPLEX_INITIALIZE, COMPLEX_SWAP, COMPLEX_BUY, COMPLEX_SELL} \<Longrightarrow>
   parseComplexRaydiumInstruction instruction message index tx d
     = parseGenericRaydiumInstruction instruction message index tx d"
  by (simp add: parseComplexRaydiumInstruction_def)

section \<open>The swap scenario\<close>

text \<open>
  Claim C4, as stated, fails. The 17-byte swap payload of the scenario, decoded by the
  engine, gives a trade of kind \<^verbatim>\<open>swap\<close> with input amount 243200000000 and a buy
  detail with \<^verbatim>\<open>MinAmountOut\<close> 0; decoded by the swap decoder itself it gives the
  amounts of the scenario, and again the kind \<^verbatim>\<open>swap\<close>, not \<^verbatim>\<open>buy\<close>.
\<close>

theorem C4_swap_scenario_counterexample:
  "parseInstruction swap17 demo_message 0 demo_tx
     = Ret (None, demo_bought (demo_trade 0 243200000000 ''swap'') (demo_buy 243200000000 0))
 \<and> parseSwapInstruction swap17 demo_message 0 demo_tx
     = Ret (None, demo_bought (demo_trade 0 1000000000 ''swap'') (demo_buy 1000000000 950000000))
 \<and> TradeType (demo_trade 0 243200000000 ''swap'') \<noteq> ''buy''
 \<and> TradeType (demo_trade 0 1000000000 ''swap'') \<noteq> ''buy''"
  by code_simp

text \<open>
  Claim C4, amended. The swap decoder, applied to an instruction that carries the
  17-byte payload of the scenario, has at least six accounts with the first three indices
  in range, and has the wrapped-SOL mint as its first account, appends exactly one trade,
  of kind \<^verbatim>\<open>swap\<close> and input amount 1000000000, records its index in \<^verbatim>\<open>TradeBuys\<close>,
  and appends exactly one buy detail, with \<^verbatim>\<open>MinAmountOut\<close> 950000000.
\<close>

theorem C4_swap_scenario_amended:
  assumes "CompiledInstruction.Data instruction = swap17_data"
    and "length (CompiledInstruction.Accounts instruction) \<ge> 6"
    and "unat (CompiledInstruction.Accounts instruction ! 0) < length (AccountKeys message)"
    and "unat (CompiledInstruction.Accounts instruction ! 1) < length (AccountKeys message)"
    and "unat (CompiledInstruction.Accounts instruction ! 2) < length (AccountKeys message)"
    and "AccountKeys message ! unat (CompiledInstruction.Accounts instruction ! 0) = solMint"
  shows "parseSwapInstruction instruction message index tx =
     Ret (None,
       tx\<lparr>Trade := Trade tx @
            [\<lparr>InstructionIndex = index,
              TradeInfo.TokenIn = solMint,
              TradeInfo.TokenOut =
                AccountKeys message ! unat (CompiledInstruction.Accounts instruction ! 1),
              TradeInfo.AmountIn = 1000000000,
              TradeInfo.AmountOut = 0,
              Trader = AccountKeys message ! 0,
              TradeInfo.Pool =
                AccountKeys message ! unat (CompiledInstruction.Accounts instruction ! 2),
              TradeType = ''swap''\<rparr>],
          TradeBuys := TradeBuys tx @ [index],
          SwapBuys := SwapBuys tx @
            [\<lparr>SwapBuy.TokenIn = solMint,
              SwapBuy.TokenOut =
                AccountKeys message ! unat (CompiledInstruction.Accounts instruction ! 1),
              SwapBuy.AmountIn = 1000000000,
              SwapBuy.AmountOut = 0,
              SwapBuy.MinAmountOut = 950000000,
              SwapBuy.Pool =
                AccountKeys message ! unat (CompiledInstruction.Accounts instruction ! 2),
              Buyer = AccountKeys message ! 0,
              SwapBuy.Slippage = 0\<rparr>]\<rparr>)"
proof -
  have a1: "Uint64At swap17_data (Suc 0) = 1000000000" by code_simp
  have a9: "Uint64At swap17_data 9 = 950000000" by code_simp
  have len: "length swap17_data = 17" by (simp add: swap17_data_def)
  have k0: "keyAt message 0 = Ret (AccountKeys message ! 0)"
    using assms(3) by (cases "AccountKeys message") (simp_all add: keyAt_def)
  show ?thesis
    using assms k0
    by (simp add: parseSwapInstruction_def keyAt_def Let_def ok_def isBaseCurrency_def a1 a9 len)
qed

theorem C4_swap_scenario_amended_witness:
  "CompiledInstruction.Data swap17 = swap17_data
 \<and> length (CompiledInstruction.Accounts swap17) \<ge> 6
 \<and> unat (CompiledInstruction.Accounts swap17 ! 0) < length (AccountKeys demo_message)
 \<and> unat (CompiledInstruction.Accounts swap17 ! 1) < length (AccountKeys demo_message)
 \<and> unat (CompiledInstruction.Accounts swap17 ! 2) < length (AccountKeys demo_message)
 \<and> AccountKeys demo_message ! unat (CompiledInstruction.Accounts swap17 ! 0) = solMint
 \<and> parseSwapInstruction swap17 demo_message 0 demo_tx
     = Ret (None, demo_bought (demo_trade 0 1000000000 ''swap'') (demo_buy 1000000000 950000000))"
proof -
  have h1: "CompiledInstruction.Data swap17 = swap17_data" by (simp add: swap17_def)
  have h2: "length (CompiledInstruction.Accounts swap17) \<ge> 6" by (simp add: swap17_def)
  have h3: "unat (CompiledInstruction.Accounts swap17 ! 0) < length (AccountKeys demo_message)"
    by (simp add: swap17_def demo_message_def demo_keys_def)
  have h4: "unat (CompiledInstruction.Accounts swap17 ! 1) < length (AccountKeys demo_message)"
    by (simp add: swap17_def demo_message_def demo_keys_def)
  have h5: "unat (CompiledInstruction.Accounts swap17 ! 2) < length (AccountKeys demo_message)"
    by (simp add: swap17_def demo_message_def demo_keys_def)
  have h6: "AccountKeys demo_message ! unat (CompiledInstruction.Accounts swap17 ! 0) = solMint"
    by (simp add: swap17_def demo_message_def demo_keys_def solMint_def)
  have "parseSwapInstruction swap17 demo_message 0 demo_tx
     = Ret (None, demo_bought (demo_trade 0 1000000000 ''swap'') (demo_buy 1000000000 950000000))"
    unfolding C4_swap_scenario_amended [OF h1 h2 h3 h4 h5 h6, of 0 demo_tx]
    by code_simp
  with h1 h2 h3 h4 h5 h6 show ?thesis by simp
qed

section \<open>Panics\<close>

text \<open>
  Claim C5 at a creation instruction with eight accounts, one of which indexes beyond
  the account-key table: the decoder panics, and so does the decoding of a transaction
  that holds the instruction. The data summary panics on a payload of eight bytes.
\<close>

theorem C5_out_of_range_account_panics:
  "unat (ProgramIDIndex oob_create) < length (AccountKeys demo_message)
 \<and> length (CompiledInstruction.Accounts oob_create) = 8
 \<and> parseInstruction oob_create demo_message 0 demo_tx = Panic
 \<and> parseStandardTransactionWithSignature [swap17, oob_create] demo_message 353025037 ''sig''
     = Panic
 \<and> ExtractInstructionData [1, 2, 3, 4, 5, 6, 7, 8] = Panic"
  by code_simp

section \<open>Too few accounts\<close>

text \<open>
  Each decoder that has an account requirement (8 for creation, 6 for swap, buy and
  sell, 4 for migration), when it is given fewer accounts, returns its
  insufficient-accounts error and leaves the result as it was; and whenever the routing
  of one instruction returns an error, the result is unchanged.
\<close>

lemma decoders_fail_closed:
  "(length (CompiledInstruction.Accounts instruction) < 8 \<longrightarrow>
      parseCreatePoolInstruction instruction message index tx
        = Ret (Some (Errorf ''insufficient accounts for pool creation''), tx))
 \<and> (length (CompiledInstruction.Accounts instruction) < 6 \<longrightarrow>
      parseSwapInstruction instruction message index tx
        = Ret (Some (Errorf ''insufficient accounts for swap''), tx)
    \<and> parseBuyInstructionStandard instruction message index tx
        = Ret (Some (Errorf ''insufficient accounts for buy''), tx)
    \<and> parseSellInstructionStandard instruction message index tx
        = Ret (Some (Errorf ''insufficient accounts for sell''), tx))
 \<and> (length (CompiledInstruction.Accounts instruction) < 4 \<longrightarrow>
      parseMigrateInstruction instruction message index tx
        = Ret (Some (Errorf ''insufficient accounts for migration''), tx))
 \<and> (length (GeyserInstruction.Accounts ginstruction) < 8 \<longrightarrow>
      parseGeyserCreatePoolInstruction ginstruction index tx meta
        = Ret (Some (Errorf ''insufficient accounts for pool creation''), tx))
 \<and> (length (GeyserInstruction.Accounts ginstruction) < 6 \<longrightarrow>
      parseGeyserSwapInstruction ginstruction index tx meta
        = Ret (Some (Errorf ''insufficient accounts for swap''), tx)
    \<and> parseGeyserBuyInstruction ginstruction index tx meta
        = Ret (Some (Errorf ''insufficient accounts for buy''), tx)
    \<and> parseGeyserSellInstruction ginstruction index tx meta
        = Ret (Some (Errorf ''insufficient accounts for sell''), tx))
 \<and> (length (GeyserInstruction.Accounts ginstruction) < 4 \<longrightarrow>
      parseGeyserMigrateInstruction ginstruction index tx meta
        = Ret (Some (Errorf ''insufficient accounts for migration''), tx))
 \<and> (parseInstruction instruction message index tx = Ret (Some e, tx') \<longrightarrow> tx' = tx)
 \<and> (parseGeyserInstructionWrapper ginstruction index tx meta = Ret (Some e, tx') \<longrightarrow> tx' = tx)"
proof -
  have std: "parseInstruction instruction message index tx = Ret (Some e, tx') \<longrightarrow> tx' = tx"
    using step_parseInstruction [of index tx instruction message]
    by (auto simp: effect_ok_def)
  have gey: "parseGeyserInstructionWrapper ginstruction index tx meta = Ret (Some e, tx')
      \<longrightarrow> tx' = tx"
    using step_geyser_wrapper [of index tx ginstruction meta]
    by (auto simp: effect_ok_def)
  show ?thesis
    using std gey
    by (simp add: parseCreatePoolInstruction_def parseSwapInstruction_def
        parseBuyInstructionStandard_def parseSellInstructionStandard_def
        parseMigrateInstruction_def parseGeyserCreatePoolInstruction_def
        parseGeyserSwapInstruction_def parseGeyserBuyInstruction_def
        parseGeyserSellInstruction_def parseGeyserMigrateInstruction_def fail_def)
qed

text \<open>
  The standard-format resolver of the Raydium programs hands an instruction to the
  decoder of its simple discriminator when the payload is shorter than eight bytes or
  its first eight bytes are all zero, and to the decoder of its 8-byte discriminator when
  that is in the complex table. An instruction so resolved that has fewer accounts than
  its kind requires makes the resolver return the insufficient-accounts error with the
  result unchanged.
\<close>

lemma simple_resolution_fails_closed:
  assumes "CompiledInstruction.Data instruction \<noteq> []"
    and "length (CompiledInstruction.Data instruction) < 8
         \<or> Uint64At (CompiledInstruction.Data instruction) 0 = 0"
  shows "((CompiledInstruction.Data instruction ! 0 = INSTRUCTION_INITIALIZE_POOL
           \<or> CompiledInstruction.Data instruction ! 0 = INSTRUCTION_CREATE_POOL)
          \<and> length (CompiledInstruction.Accounts instruction) < 8 \<longrightarrow>
            parseRaydiumInstruction instruction message index tx
              = Ret (Some (Errorf ''insufficient accounts for pool creation''), tx))
       \<and> ((CompiledInstruction.Data instruction ! 0 = INSTRUCTION_SWAP
           \<or> CompiledInstruction.Data instruction ! 0 = INSTRUCTION_SWAP_BASE_IN
           \<or> CompiledInstruction.Data instruction ! 0 = INSTRUCTION_SWAP_BASE_OUT)
          \<and> length (CompiledInstruction.Accounts instruction) < 6 \<longrightarrow>
            parseRaydiumInstruction instruction message index tx
              = Ret (Some (Errorf ''insufficient accounts for swap''), tx))
       \<and> (CompiledInstruction.Data instruction ! 0 = INSTRUCTION_BUY
          \<and> length (CompiledInstruction.Accounts instruction) < 6 \<longrightarrow>
            parseRaydiumInstruction instruction message index tx
              = Ret (Some (Errorf ''insufficient accounts for buy''), tx))
       \<and> (CompiledInstruction.Data instruction ! 0 = INSTRUCTION_SELL
          \<and> length (CompiledInstruction.Accounts instruction) < 6 \<longrightarrow>
            parseRaydiumInstruction instruction message index tx
              = Ret (Some (Errorf ''insufficient accounts for sell''), tx))
       \<and> (CompiledInstruction.Data instruction ! 0 = INSTRUCTION_MIGRATE
          \<and> length (CompiledInstruction.Accounts instruction) < 4 \<longrightarrow>
            parseRaydiumInstruction instruction message index tx
              = Ret (Some (Errorf ''insufficient accounts for migration''), tx))"
  using assms
  by (auto simp: parseRaydiumInstruction_def Let_def
      INSTRUCTION_INITIALIZE_POOL_def INSTRUCTION_CREATE_POOL_def INSTRUCTION_SWAP_def
      INSTRUCTION_SWAP_BASE_IN_def INSTRUCTION_SWAP_BASE_OUT_def INSTRUCTION_BUY_def
      INSTRUCTION_SELL_def INSTRUCTION_MIGRATE_def INSTRUCTION_DEPOSIT_def
      INSTRUCTION_WITHDRAW_def
      parseCreatePoolInstruction_def parseSwapInstruction_def
      parseBuyInstructionStandard_def parseSellInstructionStandard_def
      parseMigrateInstruction_def fail_def)

lemma complex_resolution_fails_closed:
  assumes "length (CompiledInstruction.Data instruction) \<ge> 8"
  shows "(Uint64At (CompiledInstruction.Data instruction) 0 = COMPLEX_INITIALIZE
          \<and> length (CompiledInstruction.Accounts instruction) < 8 \<longrightarrow>
            parseRaydiumInstruction instruction message index tx
              = Ret (Some (Errorf ''insufficient accounts for pool creation''), tx))
       \<and> (Uint64At (CompiledInstruction.Data instruction) 0 = COMPLEX_SWAP
          \<and> length (CompiledInstruction.Accounts instruction) < 6 \<longrightarrow>
            parseRaydiumInstruction instruction message index tx
              = Ret (Some (Errorf ''insufficient accounts for swap''), tx))
       \<and> (Uint64At (CompiledInstruction.Data instruction) 0 = COMPLEX_BUY
          \<and> length (CompiledInstruction.Accounts instruction) < 6 \<longrightarrow>
            parseRaydiumInstruction instruction message index tx
              = Ret (Some (Errorf ''insufficient accounts for buy''), tx))
       \<and> (Uint64At (CompiledInstruction.Data instruction) 0 = COMPLEX_SELL
          \<and> length (CompiledInstruction.Accounts instruction) < 6 \<longrightarrow>
            parseRaydiumInstruction instruction message index tx
              = Ret (Some (Errorf ''insufficient accounts for sell''), tx))"
proof -
  have ne: "CompiledInstruction.Data instruction \<noteq> []"
    using assms by auto
  show ?thesis
    using assms ne
    by (simp add: parseRaydiumInstruction_def parseComplexRaydiumInstruction_def Let_def
      COMPLEX_INITIALIZE_def COMPLEX_SWAP_def COMPLEX_BUY_def COMPLEX_SELL_def
      parseCreatePoolInstruction_def parseSwapInstruction_def
      parseBuyInstructionStandard_def parseSellInstructionStandard_def fail_def)
qed

text \<open>
  A creation instruction with three accounts whose payload is the one byte 9 is resolved
  by its simple discriminator in both formats, and fails closed.
\<close>

lemma short_create_routed:
  "parseInstruction short_create demo_message 0 demo_tx
     = Ret (Some (Errorf ''insufficient accounts for pool creation''), demo_tx)"
  by code_simp

lemma short_geyser_routed:
  "parseGeyserInstructionWrapper short_geyser 0 demo_tx None
     = Ret (Some (Errorf ''insufficient accounts for pool creation''), demo_tx)"
  by code_simp

text \<open>
  Claim C6 at creation instructions of the Raydium V4 program (first byte 9) that have
  fewer than the eight accounts of a creation. With five accounts and a payload of ten
  bytes, the creation decoder applied to the instruction returns its
  insufficient-accounts error and leaves the result unchanged, and so does the
  Geyser-format routing of the same payload with five accounts; but the standard-format
  routing returns no error and appends a migration: the first eight bytes of the payload
  are not all zero, so the resolver takes the complex path, which ends in the fallback
  decoder, and that decodes an instruction of four to seven accounts as a migration.
  With seven accounts and a payload of seventeen bytes the standard-format routing
  appends a trade and a buy detail.
\<close>

theorem C6_creation_fails_open:
  "CompiledInstruction.Data under_create ! 0 = INSTRUCTION_CREATE_POOL
 \<and> length (CompiledInstruction.Accounts under_create) = 5
 \<and> parseCreatePoolInstruction under_create demo_message 0 demo_tx
     = Ret (Some (Errorf ''insufficient accounts for pool creation''), demo_tx)
 \<and> GeyserInstruction.Data under_create_geyser = CompiledInstruction.Data under_create
 \<and> length (GeyserInstruction.Accounts under_create_geyser) = 5
 \<and> parseGeyserInstructionWrapper under_create_geyser 0 demo_tx None
     = Ret (Some (Errorf ''insufficient accounts for pool creation''), demo_tx)
 \<and> parseInstruction under_create demo_message 0 demo_tx
     = parseGenericRaydiumInstruction under_create demo_message 0 demo_tx 9
 \<and> parseInstruction under_create demo_message 0 demo_tx
     = Ret (None,
         demo_tx\<lparr>Migrate :=
           [\<lparr>FromPool = ''8pf71rxkus6HVhNa9ERdJ571wfPa1a8QKKMsxGkDbonk'',
             ToPool = ''58oQChx4yWmvKdwLLZzBi4ChoCc2fqCUWBkwMihLYQo2'',
             Token = ''7xKXtg2CW87d97TXJSDpbD5jBkheTqA83TZRuJosgAsU'',
             Amount = 0,
             Owner = ''So11111111111111111111111111111111111111112'',
             Timestamp = 0\<rparr>]\<rparr>)
 \<and> parseStandardTransactionWithSignature [under_create] demo_message 353025037 ''sig''
     = Ret (demo_tx\<lparr>Migrate :=
           [\<lparr>FromPool = ''8pf71rxkus6HVhNa9ERdJ571wfPa1a8QKKMsxGkDbonk'',
             ToPool = ''58oQChx4yWmvKdwLLZzBi4ChoCc2fqCUWBkwMihLYQo2'',
             Token = ''7xKXtg2CW87d97TXJSDpbD5jBkheTqA83TZRuJosgAsU'',
             Amount = 0,
             Owner = ''So11111111111111111111111111111111111111112'',
             Timestamp = 0\<rparr>]\<rparr>)
 \<and> CompiledInstruction.Data under_create7 ! 0 = INSTRUCTION_CREATE_POOL
 \<and> length (CompiledInstruction.Accounts under_create7) = 7
 \<and> parseCreatePoolInstruction under_create7 demo_message 0 demo_tx
     = Ret (Some (Errorf ''insufficient accounts for pool creation''), demo_tx)
 \<and> parseInstruction under_create7 demo_message 0 demo_tx
     = Ret (None, demo_bought (demo_trade 0 1536 ''swap'') (demo_buy 1536 0))"
  by code_simp

section \<open>The range of the slippage\<close>

text \<open>
  Rounding to 53 bits is monotone and keeps a positive value within its binade; hence
  the quotient of two positive floats, the first not above the second, rounds into the
  interval from 0 to 1.
\<close>

lemma pow2_powi: "pow2 e = 2 powi e"
  by (simp add: pow2_def power_int_def power_one_over inverse_eq_divide)

lemma pow2_pos: "0 < pow2 e"
  by (simp add: pow2_powi)

lemma pow2_add: "pow2 (a + b) = pow2 a * pow2 b"
  by (simp add: pow2_powi power_int_add)

lemma pow2_nat: "0 \<le> e \<Longrightarrow> pow2 e = 2 ^ nat e"
  by (simp add: pow2_def)

lemma pow2_mono: "a \<le> b \<Longrightarrow> pow2 a \<le> pow2 b"
  using power_int_increasing [of a b "2::rat"] by (simp add: pow2_powi)

lemma pow2_strict_mono: "a < b \<Longrightarrow> pow2 a < pow2 b"
  using power_int_strict_increasing [of a b "2::rat"] by (simp add: pow2_powi)

lemma pow2_less_iff: "pow2 a < pow2 b \<longleftrightarrow> a < b"
  by (meson pow2_mono pow2_strict_mono leD leI)

lemma pow2_le_iff: "pow2 a \<le> pow2 b \<longleftrightarrow> a \<le> b"
  by (meson pow2_mono pow2_strict_mono leD leI)

lemma floor_log2_bounds:
  assumes "0 < q"
  shows "pow2 (floor_log2 q) \<le> q \<and> q < pow2 (floor_log2 q + 1)"
proof (cases "1 \<le> q")
  case True
  define n where "n = \<lfloor>q\<rfloor>"
  have n1: "1 \<le> n" using True by (simp add: n_def le_floor_iff)
  then have npos: "0 < n" by simp
  have b: "2 ^ nat (bitlen n - 1) \<le> n \<and> n < 2 ^ nat (bitlen n)"
    using bitlen_bounds [OF npos] .
  have bl: "1 \<le> bitlen n" using npos by (simp add: bitlen_alt_def)
  have e: "floor_log2 q = bitlen n - 1" using True by (simp add: floor_log2_def n_def)
  have lo: "pow2 (bitlen n - 1) \<le> q"
  proof -
    have "(2::rat) ^ nat (bitlen n - 1) = of_int (2 ^ nat (bitlen n - 1))" by simp
    also have "\<dots> \<le> of_int n" using b by (simp only: of_int_le_iff)
    also have "\<dots> \<le> q" by (simp add: n_def)
    finally show ?thesis using bl by (simp add: pow2_nat)
  qed
  have hi: "q < pow2 (bitlen n - 1 + 1)"
  proof -
    have "q < of_int (n + 1)" unfolding n_def by linarith
    also have "of_int (n + 1) \<le> (of_int (2 ^ nat (bitlen n)) :: rat)"
      using b by (simp only: of_int_le_iff) simp
    also have "\<dots> = 2 ^ nat (bitlen n)" by simp
    finally show ?thesis using bl by (simp add: pow2_nat)
  qed
  show ?thesis using lo hi e by simp
next
  case False
  define r where "r = 1 / q"
  define c where "c = \<lceil>r\<rceil> - 1"
  have r1: "1 < r" using False assms by (simp add: r_def)
  have c1: "1 \<le> c" using r1 by (simp add: c_def less_ceiling_iff)
  then have cpos: "0 < c" by simp
  have clt: "of_int c < r" unfolding c_def by linarith
  have cge: "r \<le> of_int (c + 1)" unfolding c_def by linarith
  have b: "2 ^ nat (bitlen c - 1) \<le> c \<and> c < 2 ^ nat (bitlen c)"
    using bitlen_bounds [OF cpos] .
  have bl: "1 \<le> bitlen c" using cpos by (simp add: bitlen_alt_def)
  have e: "floor_log2 q = - bitlen c" using False by (simp add: floor_log2_def c_def r_def)
  have "r \<le> (of_int (2 ^ nat (bitlen c)) :: rat)"
    using cge b by (meson of_int_le_iff order_trans zless_imp_add1_zle)
  then have rle: "r \<le> 2 ^ nat (bitlen c)" by simp
  have "(2::rat) ^ nat (bitlen c - 1) = of_int (2 ^ nat (bitlen c - 1))" by simp
  also have "\<dots> \<le> of_int c" using b by (simp only: of_int_le_iff)
  also have "\<dots> < r" by (rule clt)
  finally have rgt: "2 ^ nat (bitlen c - 1) < r" .
  have lo: "pow2 (- bitlen c) \<le> q"
  proof -
    have "1 / 2 ^ nat (bitlen c) \<le> 1 / r" using rle r1 by (simp add: frac_le)
    then show ?thesis using bl assms by (simp add: pow2_def r_def)
  qed
  have hi: "q < pow2 (- bitlen c + 1)"
  proof -
    have "1 / r < 1 / 2 ^ nat (bitlen c - 1)" using rgt by (simp add: frac_less2)
    moreover have "pow2 (- bitlen c + 1) = 1 / 2 ^ nat (bitlen c - 1)"
      using bl by (auto simp: pow2_def)
    ultimately show ?thesis using assms by (simp add: r_def)
  qed
  show ?thesis using lo hi e by simp
qed

lemma round_half_even_bounds:
  "of_int (round_half_even m) \<le> m + 1 / 2 \<and> m - 1 / 2 \<le> of_int (round_half_even m)"
  unfolding round_half_even_def Let_def
  by (auto; linarith)

lemma round_half_even_of_int: "round_half_even (of_int n) = n"
  by (simp add: round_half_even_def)

lemma round_half_even_mono:
  assumes "m \<le> m'"
  shows "round_half_even m \<le> round_half_even m'"
proof -
  have f: "\<lfloor>m\<rfloor> \<le> \<lfloor>m'\<rfloor>" using assms by (rule floor_mono)
  have lo: "\<lfloor>m'\<rfloor> \<le> round_half_even m'"
    by (simp add: round_half_even_def Let_def)
  have hi: "round_half_even m \<le> \<lfloor>m\<rfloor> + 1"
    by (simp add: round_half_even_def Let_def)
  show ?thesis
  proof (cases "\<lfloor>m\<rfloor> = \<lfloor>m'\<rfloor>")
    case True
    then show ?thesis
      using assms by (auto simp: round_half_even_def Let_def)
  next
    case False
    with f have "\<lfloor>m\<rfloor> + 1 \<le> \<lfloor>m'\<rfloor>" by simp
    with lo hi show ?thesis by linarith
  qed
qed

lemma round_half_even_int_bounds:
  assumes "of_int a \<le> m" "m \<le> of_int b"
  shows "a \<le> round_half_even m \<and> round_half_even m \<le> b"
  using round_half_even_mono [OF assms(1)] round_half_even_mono [OF assms(2)]
  by (simp add: round_half_even_of_int)

lemma f64_round_pos_eq:
  "0 < q \<Longrightarrow>
   f64_round q = of_int (round_half_even (q / pow2 (floor_log2 q - 52))) * pow2 (floor_log2 q - 52)"
  by (simp add: f64_round_def Let_def)

lemma significand_bounds:
  assumes "0 < q"
  shows "2 ^ 52 \<le> round_half_even (q / pow2 (floor_log2 q - 52))
       \<and> round_half_even (q / pow2 (floor_log2 q - 52)) \<le> 2 ^ 53"
proof -
  define e where "e = floor_log2 q"
  define u where "u = pow2 (e - 52)"
  have u: "0 < u" by (simp add: u_def pow2_pos)
  have b: "pow2 e \<le> q \<and> q < pow2 (e + 1)" using floor_log2_bounds [OF assms] by (simp add: e_def)
  have e52: "pow2 e = 2 ^ 52 * u"
    using pow2_add [of 52 "e - 52"] by (simp add: u_def pow2_nat)
  have e53: "pow2 (e + 1) = 2 ^ 53 * u"
    using pow2_add [of 53 "e - 52"] by (simp add: u_def pow2_nat add.commute)
  have lo: "of_int (2 ^ 52) \<le> q / u"
    using b u e52 by (simp add: pos_le_divide_eq)
  have hi: "q / u \<le> of_int (2 ^ 53)"
    using b u e53 by (simp add: pos_divide_le_eq)
  show ?thesis
    using round_half_even_int_bounds [OF lo hi] by (simp add: u_def e_def)
qed

lemma f64_round_bounds:
  assumes "0 < q"
  shows "pow2 (floor_log2 q) \<le> f64_round q \<and> f64_round q \<le> pow2 (floor_log2 q + 1)"
proof -
  define e where "e = floor_log2 q"
  define u where "u = pow2 (e - 52)"
  define r where "r = round_half_even (q / u)"
  have u: "0 < u" by (simp add: u_def pow2_pos)
  have e52: "pow2 e = 2 ^ 52 * u"
    using pow2_add [of 52 "e - 52"] by (simp add: u_def pow2_nat)
  have e53: "pow2 (e + 1) = 2 ^ 53 * u"
    using pow2_add [of 53 "e - 52"] by (simp add: u_def pow2_nat add.commute)
  have r: "2 ^ 52 \<le> r \<and> r \<le> 2 ^ 53"
    using significand_bounds [OF assms] by (simp add: r_def u_def e_def)
  have eq: "f64_round q = of_int r * u"
    using assms by (simp add: f64_round_pos_eq r_def u_def e_def)
  have "(of_int (2 ^ 52) :: rat) \<le> of_int r" using r by (simp only: of_int_le_iff)
  then have lo: "2 ^ 52 * u \<le> of_int r * u" using u by simp
  have "(of_int r :: rat) \<le> of_int (2 ^ 53)" using r by (simp only: of_int_le_iff)
  then have hi: "of_int r * u \<le> 2 ^ 53 * u" using u by simp
  show ?thesis using lo hi eq e52 e53 by (simp add: e_def)
qed

lemma floor_log2_mono:
  assumes "0 < p" "p \<le> q"
  shows "floor_log2 p \<le> floor_log2 q"
proof -
  have "pow2 (floor_log2 p) \<le> p" using floor_log2_bounds [OF assms(1)] by simp
  also have "p \<le> q" by fact
  also have "q < pow2 (floor_log2 q + 1)" using floor_log2_bounds [of q] assms by simp
  finally show ?thesis by (simp add: pow2_less_iff)
qed

lemma f64_round_mono:
  assumes "0 < p" "p \<le> q"
  shows "f64_round p \<le> f64_round q"
proof (cases "floor_log2 p = floor_log2 q")
  case True
  define u where "u = pow2 (floor_log2 q - 52)"
  have u: "0 < u" by (simp add: u_def pow2_pos)
  have "p / u \<le> q / u" using assms(2) u by (simp add: divide_right_mono)
  then have "round_half_even (p / u) \<le> round_half_even (q / u)"
    by (rule round_half_even_mono)
  then have "(of_int (round_half_even (p / u)) :: rat) \<le> of_int (round_half_even (q / u))"
    by (simp only: of_int_le_iff)
  then have "of_int (round_half_even (p / u)) * u \<le> of_int (round_half_even (q / u)) * u"
    using u by simp
  then show ?thesis
    using assms True by (simp add: f64_round_pos_eq u_def)
next
  case False
  then have lt: "floor_log2 p + 1 \<le> floor_log2 q"
    using floor_log2_mono [OF assms] by simp
  have "f64_round p \<le> pow2 (floor_log2 p + 1)" using f64_round_bounds [OF assms(1)] by simp
  also have "\<dots> \<le> pow2 (floor_log2 q)" using lt by (rule pow2_mono)
  also have "\<dots> \<le> f64_round q" using f64_round_bounds [of q] assms by simp
  finally show ?thesis .
qed

lemma f64_round_one: "f64_round 1 = 1"
  by code_simp

lemma f64_round_unit_interval:
  assumes "0 < q" "q \<le> 1"
  shows "0 < f64_round q \<and> f64_round q \<le> 1"
proof -
  have "pow2 (floor_log2 q) \<le> f64_round q" using f64_round_bounds [OF assms(1)] by simp
  then have "0 < f64_round q" using pow2_pos [of "floor_log2 q"] by linarith
  moreover have "f64_round q \<le> 1"
    using f64_round_mono [OF assms] by (simp add: f64_round_one)
  ultimately show ?thesis by simp
qed

lemma float64_of_pos: "x \<noteq> 0 \<Longrightarrow> 0 < float64_of x"
proof -
  assume "x \<noteq> 0"
  then have "0 < uint x" by (simp add: word_neq_0_conv word_less_def)
  then have "(0::rat) < of_int (uint x)" by (simp only: of_int_0_less_iff)
  then show ?thesis
    unfolding float64_of_def using f64_round_unit_interval f64_round_bounds pow2_pos
    by (metis less_le_trans)
qed

lemma float64_of_mono: "x \<noteq> 0 \<Longrightarrow> x \<le> y \<Longrightarrow> float64_of x \<le> float64_of y"
proof -
  assume x: "x \<noteq> 0" and xy: "x \<le> y"
  have "0 < uint x" using x by (simp add: word_neq_0_conv word_less_def)
  then have p: "(0::rat) < of_int (uint x)" by (simp only: of_int_0_less_iff)
  have "uint x \<le> uint y" using xy by (simp add: word_le_def)
  then have "(of_int (uint x) :: rat) \<le> of_int (uint y)" by (simp only: of_int_le_iff)
  with p show ?thesis unfolding float64_of_def by (rule f64_round_mono)
qed

lemma calculateSlippage_range:
  "0 \<le> calculateSlippage actual expected \<and> calculateSlippage actual expected \<le> 1"
proof (cases "expected = 0 \<or> expected \<le> actual")
  case True
  then show ?thesis by (auto simp: calculateSlippage_def)
next
  case False
  then have lt: "actual < expected" and nz: "expected \<noteq> 0" by auto
  have dnz: "expected - actual \<noteq> 0" using lt by auto
  have dle: "expected - actual \<le> expected" using lt by (simp add: word_sub_le less_imp_le)
  have x: "0 < float64_of (expected - actual)" using dnz by (rule float64_of_pos)
  have xy: "float64_of (expected - actual) \<le> float64_of expected"
    using dnz dle by (rule float64_of_mono)
  have y: "0 < float64_of expected" using x xy by linarith
  have q: "0 < float64_of (expected - actual) / float64_of expected
      \<and> float64_of (expected - actual) / float64_of expected \<le> 1"
    using x xy y by simp
  have "calculateSlippage actual expected
      = f64_round (float64_of (expected - actual) / float64_of expected)"
    using False by (auto simp: calculateSlippage_def f64_div_def)
  then show ?thesis
    using f64_round_unit_interval [of "float64_of (expected - actual) / float64_of expected"] q
    by simp
qed

text \<open>Below \<open>2\<^sup>5\<^sup>3\<close> the conversion of an unsigned integer is exact.\<close>

lemma f64_round_small_int:
  assumes "0 < n" "n < 2 ^ 53"
  shows "f64_round (of_int n) = of_int n"
proof -
  define e where "e = floor_log2 (of_int n)"
  define k where "k = nat (52 - e)"
  have q: "(0::rat) < of_int n" using assms(1) by simp
  have "pow2 e \<le> of_int n" using floor_log2_bounds [OF q] by (simp add: e_def)
  also have "(of_int n :: rat) < of_int (2 ^ 53)" using assms(2) by (simp only: of_int_less_iff)
  also have "(of_int (2 ^ 53) :: rat) = pow2 53" by (simp add: pow2_nat)
  finally have "e < 53" by (simp add: pow2_less_iff)
  then have e: "e - 52 = - int k" by (simp add: k_def)
  have u: "pow2 (e - 52) = 1 / 2 ^ k"
    unfolding e by (simp add: pow2_powi power_int_minus inverse_eq_divide)
  have m: "of_int n / pow2 (e - 52) = (of_int (n * 2 ^ k) :: rat)"
    by (simp add: u)
  have "f64_round (of_int n) = of_int (round_half_even (of_int n / pow2 (e - 52))) * pow2 (e - 52)"
    using q by (simp add: f64_round_pos_eq e_def)
  also have "\<dots> = of_int (n * 2 ^ k) * (1 / 2 ^ k)"
    unfolding m round_half_even_of_int by (simp add: u)
  also have "\<dots> = of_int n" by simp
  finally show ?thesis .
qed

lemma float64_of_exact:
  assumes "uint x < 2 ^ 53"
  shows "float64_of x = of_int (uint x)"
proof (cases "x = 0")
  case True
  then show ?thesis by (simp add: float64_of_def f64_round_def)
next
  case False
  then have "0 < uint x" by (simp add: word_neq_0_conv word_less_def)
  then show ?thesis
    unfolding float64_of_def using assms by (rule f64_round_small_int)
qed

text \<open>
  Claim C7, as stated, fails at the upper end of the interval: with nothing received
  against an expectation of one unit the slippage is exactly 1, and rounding gives 1 as
  well for one unit received against \<open>2\<^sup>6\<^sup>4 - 1\<close> expected.
\<close>

theorem C7_slippage_counterexample:
  "(0::uint64) < 1 \<and> calculateSlippage 0 1 = 1 \<and> \<not> calculateSlippage 0 1 < 1
 \<and> calculateSlippage 1 18446744073709551615 = 1"
  by code_simp

text \<open>
  Claim C7, amended. The slippage is 0 when the actual amount is not below the expected
  one or the expected amount is 0; otherwise it is the quotient of the two conversions
  \<^verbatim>\<open>float64(expected - actual)\<close> and \<^verbatim>\<open>float64(expected)\<close>; in all cases it lies in the
  closed interval from 0 to 1.
\<close>

theorem C7_slippage_amended:
  "calculateSlippage actual expected
     = (if expected = 0 \<or> expected \<le> actual then 0
        else f64_div (float64_of (expected - actual)) (float64_of expected))
 \<and> 0 \<le> calculateSlippage actual expected
 \<and> calculateSlippage actual expected \<le> 1"
  using calculateSlippage_range [of actual expected]
  by (auto simp: calculateSlippage_def)

section \<open>Zero amounts in the fallback decoders\<close>

text \<open>
  Claim C8, as stated, fails. An instruction with six accounts and a payload of
  data-start + 16 bytes whose amount is zero is decoded, by either fallback decoder,
  into a trade and a buy detail of amount zero.
\<close>

theorem C8_zero_amount_counterexample:
  "length (CompiledInstruction.Accounts zero_amount_launchpad) = 6
 \<and> length zero_amount_data = dataStart zero_amount_data + 16
 \<and> Uint64At zero_amount_data (dataStart zero_amount_data) = 0
 \<and> parseInstruction zero_amount_launchpad demo_message 0 demo_tx
     = parseGenericLaunchpadInstruction zero_amount_launchpad demo_message 0 demo_tx 200
 \<and> parseInstruction zero_amount_launchpad demo_message 0 demo_tx
     = Ret (None, demo_bought (demo_trade 0 0 ''swap'') (demo_buy 0 0))
 \<and> parseInstruction zero_amount_raydium demo_message 0 demo_tx
     = parseGenericRaydiumInstruction zero_amount_raydium demo_message 0 demo_tx 200
 \<and> parseInstruction zero_amount_raydium demo_message 0 demo_tx
     = Ret (None, demo_bought (demo_trade 0 0 ''swap'') (demo_buy 0 0))"
  by code_simp

lemma swap_in_range:
  assumes "length (CompiledInstruction.Accounts instruction) \<ge> 6"
    and "unat (CompiledInstruction.Accounts instruction ! 0) < length (AccountKeys message)"
    and "unat (CompiledInstruction.Accounts instruction ! 1) < length (AccountKeys message)"
    and "unat (CompiledInstruction.Accounts instruction ! 2) < length (AccountKeys message)"
  shows "parseSwapInstruction instruction message index tx =
     Ret (None,
       if isBaseCurrency (AccountKeys message ! unat (CompiledInstruction.Accounts instruction ! 0))
       then
         tx\<lparr>Trade := Trade tx @
            [\<lparr>InstructionIndex = index,
              TradeInfo.TokenIn =
                AccountKeys message ! unat (CompiledInstruction.Accounts instruction ! 0),
              TradeInfo.TokenOut =
                AccountKeys message ! unat (CompiledInstruction.Accounts instruction ! 1),
              TradeInfo.AmountIn =
                (if length (CompiledInstruction.Data instruction) \<ge> 9
                 then Uint64At (CompiledInstruction.Data instruction) 1 else 0),
              TradeInfo.AmountOut = 0,
              Trader = AccountKeys message ! 0,
              TradeInfo.Pool =
                AccountKeys message ! unat (CompiledInstruction.Accounts instruction ! 2),
              TradeType = ''swap''\<rparr>],
          TradeBuys := TradeBuys tx @ [index],
          SwapBuys := SwapBuys tx @
            [\<lparr>SwapBuy.TokenIn =
                AccountKeys message ! unat (CompiledInstruction.Accounts instruction ! 0),
              SwapBuy.TokenOut =
                AccountKeys message ! unat (CompiledInstruction.Accounts instruction ! 1),
              SwapBuy.AmountIn =
                (if length (CompiledInstruction.Data instruction) \<ge> 9
                 then Uint64At (CompiledInstruction.Data instruction) 1 else 0),
              SwapBuy.AmountOut = 0,
              SwapBuy.MinAmountOut =
                (if length (CompiledInstruction.Data instruction) \<ge> 17
                 then Uint64At (CompiledInstruction.Data instruction) 9 else 0),
              SwapBuy.Pool =
                AccountKeys message ! unat (CompiledInstruction.Accounts instruction ! 2),
              Buyer = AccountKeys message ! 0,
              SwapBuy.Slippage = 0\<rparr>]\<rparr>
       else
         tx\<lparr>Trade := Trade tx @
            [\<lparr>InstructionIndex = index,
              TradeInfo.TokenIn =
                AccountKeys message ! unat (CompiledInstruction.Accounts instruction ! 0),
              TradeInfo.TokenOut =
                AccountKeys message ! unat (CompiledInstruction.Accounts instruction ! 1),
              TradeInfo.AmountIn =
                (if length (CompiledInstruction.Data instruction) \<ge> 9
                 then Uint64At (CompiledInstruction.Data instruction) 1 else 0),
              TradeInfo.AmountOut = 0,
              Trader = AccountKeys message ! 0,
              TradeInfo.Pool =
                AccountKeys message ! unat (CompiledInstruction.Accounts instruction ! 2),
              TradeType = ''swap''\<rparr>],
          TradeSells := TradeSells tx @ [index],
          SwapSells := SwapSells tx @
            [\<lparr>SwapSell.TokenIn =
                AccountKeys message ! unat (CompiledInstruction.Accounts instruction ! 0),
              SwapSell.TokenOut =
                AccountKeys message ! unat (CompiledInstruction.Accounts instruction ! 1),
              SwapSell.AmountIn =
                (if length (CompiledInstruction.Data instruction) \<ge> 9
                 then Uint64At (CompiledInstruction.Data instruction) 1 else 0),
              SwapSell.AmountOut = 0,
              SwapSell.MinAmountOut =
                (if length (CompiledInstruction.Data instruction) \<ge> 17
                 then Uint64At (CompiledInstruction.Data instruction) 9 else 0),
              SwapSell.Pool =
                AccountKeys message ! unat (CompiledInstruction.Accounts instruction ! 2),
              Seller = AccountKeys message ! 0,
              SwapSell.Slippage = 0\<rparr>]\<rparr>)"
proof -
  have k0: "keyAt message 0 = Ret (AccountKeys message ! 0)"
    using assms(2) by (cases "AccountKeys message") (simp_all add: keyAt_def)
  show ?thesis
    using assms k0
    by (simp add: parseSwapInstruction_def keyAt_def Let_def ok_def)
qed

lemma swap_out_of_range:
  assumes "length (CompiledInstruction.Accounts instruction) \<ge> 6"
    and "\<not> (unat (CompiledInstruction.Accounts instruction ! 0) < length (AccountKeys message)
          \<and> unat (CompiledInstruction.Accounts instruction ! 1) < length (AccountKeys message)
          \<and> unat (CompiledInstruction.Accounts instruction ! 2) < length (AccountKeys message))"
  shows "parseSwapInstruction instruction message index tx = Panic"
  using assms
  by (auto simp: parseSwapInstruction_def keyAt_def Let_def split: go.splits)

lemma asswap_emits:
  "parseAsSwapInstruction instruction message index tx =
     Ret (None,
       tx\<lparr>Trade := Trade tx @
            [\<lparr>InstructionIndex = index,
              TradeInfo.TokenIn = solMint,
              TradeInfo.TokenOut = fst (guessTokenOutAndPool instruction message
                (if length (AccountKeys message) > 0 then AccountKeys message ! 0 else zeroKey)),
              TradeInfo.AmountIn =
                (if length (CompiledInstruction.Data instruction) \<ge> 16
                 then Uint64At (CompiledInstruction.Data instruction) 8 else 0),
              TradeInfo.AmountOut = 0,
              Trader = (if length (AccountKeys message) > 0 then AccountKeys message ! 0 else zeroKey),
              TradeInfo.Pool = snd (guessTokenOutAndPool instruction message
                (if length (AccountKeys message) > 0 then AccountKeys message ! 0 else zeroKey)),
              TradeType = ''swap''\<rparr>],
          TradeBuys := TradeBuys tx @ [index],
          SwapBuys := SwapBuys tx @
            [\<lparr>SwapBuy.TokenIn = solMint,
              SwapBuy.TokenOut = fst (guessTokenOutAndPool instruction message
                (if length (AccountKeys message) > 0 then AccountKeys message ! 0 else zeroKey)),
              SwapBuy.AmountIn =
                (if length (CompiledInstruction.Data instruction) \<ge> 16
                 then Uint64At (CompiledInstruction.Data instruction) 8 else 0),
              SwapBuy.AmountOut = 0,
              SwapBuy.MinAmountOut =
                (if length (CompiledInstruction.Data instruction) \<ge> 24
                 then Uint64At (CompiledInstruction.Data instruction) 16 else 0),
              SwapBuy.Pool = snd (guessTokenOutAndPool instruction message
                (if length (AccountKeys message) > 0 then AccountKeys message ! 0 else zeroKey)),
              Buyer = (if length (AccountKeys message) > 0 then AccountKeys message ! 0 else zeroKey),
              SwapBuy.Slippage = 0\<rparr>]\<rparr>)"
  unfolding parseAsSwapInstruction_def Let_def ok_def isBaseCurrency_def
  by simp

text \<open>
  Claim C8, amended. For a trade-shaped instruction (six accounts or more, payload of
  data-start + 16 bytes or more) whose decoded amount is zero: the launchpad fallback
  decoder, unless the creation shape applies (eight accounts or more and a payload of
  data-start + 32 bytes or more), does not call the buy or sell decoder but returns what
  the swap decoder returns, and the swap decoder, when its first three account indices
  are in range, returns no error and appends one trade of kind \<^verbatim>\<open>swap\<close> with the
  instruction's index, and one buy detail or one sell detail under that index; the
  Raydium fallback decoder does not look at the amount, returns no error and appends one
  trade of kind \<^verbatim>\<open>swap\<close> and one buy detail, both of amount zero.
\<close>

theorem C8_zero_amount_amended:
  assumes "length (CompiledInstruction.Accounts instruction) \<ge> 6"
    and "length (CompiledInstruction.Data instruction)
           \<ge> dataStart (CompiledInstruction.Data instruction) + 16"
    and "Uint64At (CompiledInstruction.Data instruction)
           (dataStart (CompiledInstruction.Data instruction)) = 0"
  shows "(length (CompiledInstruction.Accounts instruction) < 8
          \<or> length (CompiledInstruction.Data instruction)
               < dataStart (CompiledInstruction.Data instruction) + 32
        \<longrightarrow> parseGenericLaunchpadInstruction instruction message index tx discriminator
              = parseSwapInstruction instruction message index tx)
     \<and> (unat (CompiledInstruction.Accounts instruction ! 0) < length (AccountKeys message)
        \<and> unat (CompiledInstruction.Accounts instruction ! 1) < length (AccountKeys message)
        \<and> unat (CompiledInstruction.Accounts instruction ! 2) < length (AccountKeys message)
        \<longrightarrow> (\<exists>t. TradeType t = ''swap'' \<and> InstructionIndex t = index
              \<and> ((\<exists>b. parseSwapInstruction instruction message index tx
                      = Ret (None, tx\<lparr>Trade := Trade tx @ [t],
                                        TradeBuys := TradeBuys tx @ [index],
                                        SwapBuys := SwapBuys tx @ [b]\<rparr>))
                 \<or> (\<exists>s. parseSwapInstruction instruction message index tx
                      = Ret (None, tx\<lparr>Trade := Trade tx @ [t],
                                        TradeSells := TradeSells tx @ [index],
                                        SwapSells := SwapSells tx @ [s]\<rparr>)))))
     \<and> parseGenericRaydiumInstruction instruction message index tx discriminator
          = parseAsSwapInstruction instruction message index tx
     \<and> (\<exists>t b. parseAsSwapInstruction instruction message index tx
              = Ret (None, tx\<lparr>Trade := Trade tx @ [t], TradeBuys := TradeBuys tx @ [index],
                                SwapBuys := SwapBuys tx @ [b]\<rparr>)
            \<and> TradeType t = ''swap'' \<and> InstructionIndex t = index
            \<and> TradeInfo.AmountIn t = 0 \<and> SwapBuy.AmountIn b = 0)"
proof -
  have ds: "dataStart (CompiledInstruction.Data instruction) = 8"
    using assms(2) by (auto simp: dataStart_def split: if_splits)
  have len: "length (CompiledInstruction.Data instruction) \<ge> 24"
    using assms(2) ds by simp
  have p1: "length (CompiledInstruction.Accounts instruction) < 8
          \<or> length (CompiledInstruction.Data instruction)
               < dataStart (CompiledInstruction.Data instruction) + 32
        \<longrightarrow> parseGenericLaunchpadInstruction instruction message index tx discriminator
              = parseSwapInstruction instruction message index tx"
    using assms len by (auto simp: parseGenericLaunchpadInstruction_def Let_def ds)
  have p2: "\<exists>t. TradeType t = ''swap'' \<and> InstructionIndex t = index
              \<and> ((\<exists>b. parseSwapInstruction instruction message index tx
                      = Ret (None, tx\<lparr>Trade := Trade tx @ [t],
                                        TradeBuys := TradeBuys tx @ [index],
                                        SwapBuys := SwapBuys tx @ [b]\<rparr>))
                 \<or> (\<exists>s. parseSwapInstruction instruction message index tx
                      = Ret (None, tx\<lparr>Trade := Trade tx @ [t],
                                        TradeSells := TradeSells tx @ [index],
                                        SwapSells := SwapSells tx @ [s]\<rparr>)))"
    if r0: "unat (CompiledInstruction.Accounts instruction ! 0) < length (AccountKeys message)"
      and r1: "unat (CompiledInstruction.Accounts instruction ! 1) < length (AccountKeys message)"
      and r2: "unat (CompiledInstruction.Accounts instruction ! 2) < length (AccountKeys message)"
  proof (cases "isBaseCurrency
      (AccountKeys message ! unat (CompiledInstruction.Accounts instruction ! 0))")
    case True
    have "\<exists>t b. parseSwapInstruction instruction message index tx
              = Ret (None, tx\<lparr>Trade := Trade tx @ [t], TradeBuys := TradeBuys tx @ [index],
                                SwapBuys := SwapBuys tx @ [b]\<rparr>)
            \<and> TradeType t = ''swap'' \<and> InstructionIndex t = index"
      unfolding swap_in_range [OF assms(1) r0 r1 r2, of index tx] if_P [OF True]
      by (intro exI conjI, rule refl) simp_all
    then show ?thesis by blast
  next
    case False
    have "\<exists>t s. parseSwapInstruction instruction message index tx
              = Ret (None, tx\<lparr>Trade := Trade tx @ [t], TradeSells := TradeSells tx @ [index],
                                SwapSells := SwapSells tx @ [s]\<rparr>)
            \<and> TradeType t = ''swap'' \<and> InstructionIndex t = index"
      unfolding swap_in_range [OF assms(1) r0 r1 r2, of index tx] if_not_P [OF False]
      by (intro exI conjI, rule refl) simp_all
    then show ?thesis by blast
  qed
  have p3: "parseGenericRaydiumInstruction instruction message index tx discriminator
          = parseAsSwapInstruction instruction message index tx"
    using assms(1) len by (simp add: parseGenericRaydiumInstruction_def)
  have a0: "(if length (CompiledInstruction.Data instruction) \<ge> 16
             then Uint64At (CompiledInstruction.Data instruction) 8 else 0) = 0"
    using assms(3) ds by simp
  have p4: "\<exists>t b. parseAsSwapInstruction instruction message index tx
              = Ret (None, tx\<lparr>Trade := Trade tx @ [t], TradeBuys := TradeBuys tx @ [index],
                                SwapBuys := SwapBuys tx @ [b]\<rparr>)
            \<and> TradeType t = ''swap'' \<and> InstructionIndex t = index
            \<and> TradeInfo.AmountIn t = 0 \<and> SwapBuy.AmountIn b = 0"
    unfolding asswap_emits [of instruction message index tx] a0
    by (intro exI conjI, rule refl) simp_all
  show ?thesis
    using p1 p2 p3 p4 by blast
qed

theorem C8_zero_amount_amended_witness:
  "length (CompiledInstruction.Accounts zero_amount_launchpad) \<ge> 6
 \<and> length (CompiledInstruction.Data zero_amount_launchpad)
       \<ge> dataStart (CompiledInstruction.Data zero_amount_launchpad) + 16
 \<and> Uint64At (CompiledInstruction.Data zero_amount_launchpad)
       (dataStart (CompiledInstruction.Data zero_amount_launchpad)) = 0
 \<and> length (CompiledInstruction.Accounts zero_amount_launchpad) < 8
 \<and> unat (CompiledInstruction.Accounts zero_amount_launchpad ! 0)
       < length (AccountKeys demo_message)
 \<and> unat (CompiledInstruction.Accounts zero_amount_launchpad ! 1)
       < length (AccountKeys demo_message)
 \<and> unat (CompiledInstruction.Accounts zero_amount_launchpad ! 2)
       < length (AccountKeys demo_message)
 \<and> parseGenericLaunchpadInstruction zero_amount_launchpad demo_message 0 demo_tx 200
       = parseSwapInstruction zero_amount_launchpad demo_message 0 demo_tx
 \<and> parseSwapInstruction zero_amount_launchpad demo_message 0 demo_tx \<noteq> Panic
 \<and> parseGenericRaydiumInstruction zero_amount_launchpad demo_message 0 demo_tx 200
       = parseAsSwapInstruction zero_amount_launchpad demo_message 0 demo_tx"
proof -
  have h1: "length (CompiledInstruction.Accounts zero_amount_launchpad) \<ge> 6"
    by (simp add: zero_amount_launchpad_def)
  have h2: "length (CompiledInstruction.Data zero_amount_launchpad)
       \<ge> dataStart (CompiledInstruction.Data zero_amount_launchpad) + 16"
    by (simp add: zero_amount_launchpad_def zero_amount_data_def dataStart_def)
  have h3: "Uint64At (CompiledInstruction.Data zero_amount_launchpad)
       (dataStart (CompiledInstruction.Data zero_amount_launchpad)) = 0"
    by code_simp
  have h4: "length (CompiledInstruction.Accounts zero_amount_launchpad) < 8"
    by (simp add: zero_amount_launchpad_def)
  have r0: "unat (CompiledInstruction.Accounts zero_amount_launchpad ! 0)
       < length (AccountKeys demo_message)"
    by (simp add: zero_amount_launchpad_def demo_message_def demo_keys_def)
  have r1: "unat (CompiledInstruction.Accounts zero_amount_launchpad ! 1)
       < length (AccountKeys demo_message)"
    by (simp add: zero_amount_launchpad_def demo_message_def demo_keys_def)
  have r2: "unat (CompiledInstruction.Accounts zero_amount_launchpad ! 2)
       < length (AccountKeys demo_message)"
    by (simp add: zero_amount_launchpad_def demo_message_def demo_keys_def)
  have np: "parseSwapInstruction zero_amount_launchpad demo_message 0 demo_tx \<noteq> Panic"
    using C8_zero_amount_amended [OF h1 h2 h3, of demo_message 0 demo_tx 200] r0 r1 r2
    by auto
  have eqs: "parseGenericLaunchpadInstruction zero_amount_launchpad demo_message 0 demo_tx 200
       = parseSwapInstruction zero_amount_launchpad demo_message 0 demo_tx
    \<and> parseGenericRaydiumInstruction zero_amount_launchpad demo_message 0 demo_tx 200
       = parseAsSwapInstruction zero_amount_launchpad demo_message 0 demo_tx"
    using C8_zero_amount_amended [OF h1 h2 h3, of demo_message 0 demo_tx 200] h4
    by blast
  from h1 h2 h3 h4 r0 r1 r2 np eqs show ?thesis by blast
qed

section \<open>No confidence marker\<close>

text \<open>
  Claim C9, as stated, fails. A buy instruction resolved by an exact match of the
  8-byte discriminator and an instruction of unknown discriminator decoded by the
  fallback give the same result, field for field: nothing in the output marks the second.
\<close>

theorem C9_no_marker_counterexample:
  "Uint64At (CompiledInstruction.Data exact_buy) 0 = LAUNCHPAD_BUY
 \<and> parseInstruction exact_buy demo_message 0 demo_tx
     = parseBuyInstructionStandard exact_buy demo_message 0 demo_tx
 \<and> Uint64At (CompiledInstruction.Data heuristic_buy) 0 = 200
 \<and> parseInstruction heuristic_buy demo_message 0 demo_tx
     = parseGenericLaunchpadInstruction heuristic_buy demo_message 0 demo_tx 200
 \<and> parseInstruction exact_buy demo_message 0 demo_tx
     = Ret (None, demo_bought (demo_trade 0 0 ''buy'') (demo_buy 0 0))
 \<and> parseInstruction heuristic_buy demo_message 0 demo_tx
     = Ret (None, demo_bought (demo_trade 0 0 ''buy'') (demo_buy 0 0))"
  by code_simp

text \<open>
  Claim C9, amended. The output records have no confidence field. What the launchpad
  fallback decoder returns is what one of the decoders of the exact matches (creation,
  buy, swap) returns on the same instruction, or the unchanged result; what the Raydium
  fallback decoder returns is what its swap guess, the creation decoder or the migration
  decoder returns, or the unchanged result.
\<close>

theorem C9_fallback_uses_exact_decoders:
  "(parseGenericLaunchpadInstruction instruction message index tx discriminator = ok tx
    \<or> parseGenericLaunchpadInstruction instruction message index tx discriminator
         = parseCreatePoolInstruction instruction message index tx
    \<or> parseGenericLaunchpadInstruction instruction message index tx discriminator
         = parseBuyInstructionStandard instruction message index tx
    \<or> parseGenericLaunchpadInstruction instruction message index tx discriminator
         = parseSwapInstruction instruction message index tx)
 \<and> (parseGenericRaydiumInstruction instruction message index tx discriminator = ok tx
    \<or> parseGenericRaydiumInstruction instruction message index tx discriminator
         = parseAsSwapInstruction instruction message index tx
    \<or> parseGenericRaydiumInstruction instruction message index tx discriminator
         = parseCreatePoolInstruction instruction message index tx
    \<or> parseGenericRaydiumInstruction instruction message index tx discriminator
         = parseMigrateInstruction instruction message index tx)"
proof
  have buy: "length (CompiledInstruction.Accounts instruction) \<ge> 6 \<Longrightarrow>
    (case parseBuyInstructionStandard instruction message index tx of
       Panic \<Rightarrow> Panic
     | Ret (None, result1) \<Rightarrow> ok result1
     | Ret (Some err, result1) \<Rightarrow> parseSellInstructionStandard instruction message index result1)
    = parseBuyInstructionStandard instruction message index tx"
    using buy_no_error [of instruction message index tx]
    by (auto simp: ok_def split: go.splits option.splits)
  show "parseGenericLaunchpadInstruction instruction message index tx discriminator = ok tx
    \<or> parseGenericLaunchpadInstruction instruction message index tx discriminator
         = parseCreatePoolInstruction instruction message index tx
    \<or> parseGenericLaunchpadInstruction instruction message index tx discriminator
         = parseBuyInstructionStandard instruction message index tx
    \<or> parseGenericLaunchpadInstruction instruction message index tx discriminator
         = parseSwapInstruction instruction message index tx"
    unfolding parseGenericLaunchpadInstruction_def Let_def
    using buy by auto
next
  show "parseGenericRaydiumInstruction instruction message index tx discriminator = ok tx
    \<or> parseGenericRaydiumInstruction instruction message index tx discriminator
         = parseAsSwapInstruction instruction message index tx
    \<or> parseGenericRaydiumInstruction instruction message index tx discriminator
         = parseCreatePoolInstruction instruction message index tx
    \<or> parseGenericRaydiumInstruction instruction message index tx discriminator
         = parseMigrateInstruction instruction message index tx"
    unfolding parseGenericRaydiumInstruction_def parseAsCreateOrMigrateInstruction_def
    by auto
qed

section \<open>The standard buy decoder\<close>

text \<open>
  The routes to the standard buy decoder: the simple discriminator 6 on a payload shorter
  than eight bytes, and the complex buy discriminators.
\<close>

lemma buy_routes_simple:
  assumes "CompiledInstruction.Data instruction \<noteq> []"
    and "length (CompiledInstruction.Data instruction) < 8"
    and "CompiledInstruction.Data instruction ! 0 = INSTRUCTION_BUY"
  shows "parseRaydiumInstruction instruction message index tx
           = parseBuyInstructionStandard instruction message index tx"
    and "parseRaydiumLaunchpadInstructionStandard instruction message index tx
           = parseBuyInstructionStandard instruction message index tx"
  using assms
  by (simp_all add: parseRaydiumInstruction_def parseRaydiumLaunchpadInstructionStandard_def
      Let_def INSTRUCTION_BUY_def INSTRUCTION_INITIALIZE_POOL_def INSTRUCTION_CREATE_POOL_def
      INSTRUCTION_SWAP_def INSTRUCTION_SWAP_BASE_IN_def INSTRUCTION_SWAP_BASE_OUT_def
      INSTRUCTION_INITIALIZE_def)

lemma buy_routes_complex:
  "parseComplexRaydiumInstruction instruction message index tx COMPLEX_BUY
     = parseBuyInstructionStandard instruction message index tx"
  "parseComplexLaunchpadInstruction instruction message index tx LAUNCHPAD_BUY
     = parseBuyInstructionStandard instruction message index tx"
  "parseComplexLaunchpadInstruction instruction message index tx LAUNCHPAD_REAL_2
     = parseBuyInstructionStandard instruction message index tx"
  by (simp_all add: parseComplexRaydiumInstruction_def parseComplexLaunchpadInstruction_def
      COMPLEX_BUY_def COMPLEX_INITIALIZE_def COMPLEX_SWAP_def LAUNCHPAD_BUY_def
      LAUNCHPAD_INITIALIZE_def LAUNCHPAD_REAL_2_def)

text \<open>
  Claim C10. With at least six accounts, the standard buy decoder appends a trade whose
  input token is the wrapped-SOL mint, whatever the accounts of the instruction are, and
  a buy detail whose \<^verbatim>\<open>MinAmountOut\<close> is 0. Bytes 9 to 16 of the payload reach the
  output only through the slippage. (The decoder reads the signer from the first account
  key of the message; the routing has checked before that the message has one.)
\<close>

theorem C10_standard_buy_fields:
  assumes "length (CompiledInstruction.Accounts instruction) \<ge> 6"
  shows "parseBuyInstructionStandard instruction message index tx =
    (if AccountKeys message = [] then Panic else
     Ret (None,
       tx\<lparr>Trade := Trade tx @
            [\<lparr>InstructionIndex = index,
              TradeInfo.TokenIn = ''So11111111111111111111111111111111111111112'',
              TradeInfo.TokenOut = keyAtOrZero instruction message 1,
              TradeInfo.AmountIn =
                (if length (CompiledInstruction.Data instruction) \<ge> 17
                 then Uint64At (CompiledInstruction.Data instruction) 1 else 0),
              TradeInfo.AmountOut = 0,
              Trader = AccountKeys message ! 0,
              TradeInfo.Pool = keyAtOrZero instruction message 2,
              TradeType = ''buy''\<rparr>],
          TradeBuys := TradeBuys tx @ [index],
          SwapBuys := SwapBuys tx @
            [\<lparr>SwapBuy.TokenIn = ''So11111111111111111111111111111111111111112'',
              SwapBuy.TokenOut = keyAtOrZero instruction message 1,
              SwapBuy.AmountIn =
                (if length (CompiledInstruction.Data instruction) \<ge> 17
                 then Uint64At (CompiledInstruction.Data instruction) 1 else 0),
              SwapBuy.AmountOut = 0,
              SwapBuy.MinAmountOut = 0,
              SwapBuy.Pool = keyAtOrZero instruction message 2,
              Buyer = AccountKeys message ! 0,
              SwapBuy.Slippage =
                (if length (CompiledInstruction.Data instruction) \<ge> 17
                    \<and> Uint64At (CompiledInstruction.Data instruction) 9 > 0
                    \<and> Uint64At (CompiledInstruction.Data instruction) 1 > 0
                 then calculateSlippage (Uint64At (CompiledInstruction.Data instruction) 1)
                        (Uint64At (CompiledInstruction.Data instruction) 9)
                 else 0)\<rparr>]\<rparr>))"
  using assms
  by (simp add: parseBuyInstructionStandard_def keyAt_def Let_def ok_def solMint_def)

theorem C10_standard_buy_fields_witness:
  "length (CompiledInstruction.Accounts buy17) \<ge> 6 \<and> AccountKeys demo_message \<noteq> []
 \<and> Uint64At (CompiledInstruction.Data buy17) 9 = 1100000000
 \<and> parseBuyInstructionStandard buy17 demo_message 0 demo_tx
       = Ret (None, demo_bought (demo_trade 0 1000000000 ''buy'')
                      ((demo_buy 1000000000 0)
                         \<lparr>SwapBuy.Slippage := calculateSlippage 1000000000 1100000000\<rparr>))"
proof -
  have n: "length (CompiledInstruction.Accounts buy17) \<ge> 6" by (simp add: buy17_def)
  have k: "AccountKeys demo_message \<noteq> []" by (simp add: demo_message_def demo_keys_def)
  have b: "Uint64At (CompiledInstruction.Data buy17) 9 = 1100000000" by code_simp
  have "parseBuyInstructionStandard buy17 demo_message 0 demo_tx
       = Ret (None, demo_bought (demo_trade 0 1000000000 ''buy'')
                      ((demo_buy 1000000000 0)
                         \<lparr>SwapBuy.Slippage := calculateSlippage 1000000000 1100000000\<rparr>))"
    unfolding C10_standard_buy_fields [OF n, of demo_message 0 demo_tx]
    by code_simp
  with n k b show ?thesis by simp
qed

end
